theory Spec2Isabelle
  imports Main
begin

section \<open>Values, errors and the platform\<close>

text \<open>
  The program is a TypeScript worker: an OAuth2 authorization-code + PKCE login
  (\<^verbatim>\<open>auth.service.ts\<close>), an encrypting wrapper over a key-value namespace
  (\<^verbatim>\<open>kv.service.ts\<close>), a session service with refresh-on-read
  (\<^verbatim>\<open>session.service.ts\<close>) and the callback route (\<^verbatim>\<open>auth.routes.ts\<close>,
  \<^verbatim>\<open>utils/auth.ts\<close>).

  A byte is a \<^typ>\<open>char\<close> (8 bits), so a \<^verbatim>\<open>Uint8Array\<close>, an \<^verbatim>\<open>ArrayBuffer\<close> and the
  "binary string" that \<^verbatim>\<open>String.fromCharCode\<close> builds from it are all a \<^typ>\<open>string\<close>.
  JavaScript numbers are integers here (\<^typ>\<open>int\<close>, \<^verbatim>\<open>Math.floor(x / 1000)\<close> is
  \<open>x div 1000\<close>), plus \<open>NaN\<close> where the code can produce it.

  Every operation takes the time of its call, \<open>now\<close>, in epoch milliseconds: each
  \<^verbatim>\<open>Date.now()\<close> inside one call reads that same instant. An \<^verbatim>\<open>async\<close> function is
  the function from the world before to its result and the world after; calls do not
  interleave.
\<close>

type_synonym bytes = string

datatype jsnum = Num int | NaN

text \<open>
  A numeric field of a parsed JSON object: a number, \<^verbatim>\<open>null\<close>, or no such property
  (reading it gives \<^verbatim>\<open>undefined\<close>).
\<close>

datatype jsonnum = JNum int | JNull | JAbsent

text \<open>
  \<^verbatim>\<open>interface SessionData { userId: string; accessToken: string; refreshToken: string;
  expiresAt: number }\<close>: what callers of the session service pass and receive;
  \<open>expiresAt\<close> is in epoch milliseconds. \<open>refreshToken\<close> is \<open>None\<close> when the value
  is \<^verbatim>\<open>undefined\<close> at run time (the provider may omit \<^verbatim>\<open>refresh_token\<close>, and the
  code reads it with \<^verbatim>\<open>||\<close>), and so is \<open>userId\<close> (an identity token whose payload
  has no \<^verbatim>\<open>sub\<close>).
\<close>

record SessionData =
  userId :: "string option"
  accessToken :: string
  refreshToken :: "string option"
  expiresAt :: jsnum

text \<open>
  The object the session service persists under \<^verbatim>\<open>session:<id>\<close> and reads back with
  \<^verbatim>\<open>get<{userId: string, accessToken: string, refreshToken: string, expiresAt: number}>\<close>;
  its \<open>expiresAt\<close> is in epoch seconds. \<^verbatim>\<open>JSON.stringify\<close> drops a property whose
  value is \<^verbatim>\<open>undefined\<close> and writes \<open>NaN\<close> as \<^verbatim>\<open>null\<close>.
\<close>

record stored_session =
  kv_userId :: "string option"
  kv_accessToken :: string
  kv_refreshToken :: "string option"
  kv_expiresAt :: jsonnum

text \<open>The object persisted under \<^verbatim>\<open>auth_state:<state>\<close>: \<^verbatim>\<open>{ codeVerifier }\<close>.\<close>

record auth_state =
  as_codeVerifier :: string

text \<open>
  \<^verbatim>\<open>interface TokenResponse\<close>, the JSON body of a 2xx answer of the token endpoint.
  \<open>refresh_token\<close> and \<open>expires_in\<close> are optional at run time.
\<close>

record TokenResponse =
  access_token :: string
  id_token :: string
  refresh_token :: "string option"
  expires_in :: "int option"

text \<open>
  What a \<^verbatim>\<open>fetch\<close> of the token endpoint comes to: a response that is not \<^verbatim>\<open>ok\<close>
  (status, status text, body), a 2xx response with its JSON body, or an exception
  thrown by \<^verbatim>\<open>fetch\<close> or by \<^verbatim>\<open>response.json()\<close> (with its message).
\<close>

datatype http_response =
    Http_error nat string string
  | Http_ok TokenResponse
  | Fetch_rejected string

record request =
  req_url :: string
  req_form :: "(string \<times> string) list"

text \<open>The provider's token endpoint: what each request comes to.\<close>

type_synonym upstream = "request \<Rightarrow> http_response"

text \<open>
  Every \<^verbatim>\<open>throw new Error(...)\<close> of the modelled code. \<open>FetchRejected\<close> carries the
  message of what \<^verbatim>\<open>fetch\<close> threw, and \<open>Thrown\<close> the message of what the engine
  throws while an identity token is decoded.
\<close>

datatype error =
    KVEncryptionRequired
  | ProviderError string
  | NoCodeProvided
  | NoStateProvided
  | InvalidOrExpiredOAuthState
  | KVNamespaceRequired
  | MissingCodeVerifier
  | TokenExchangeFailed nat string string
  | TokenRefreshFailed nat string
  | FetchRejected string
  | NoAccessToken
  | Thrown string
  | SessionsKVRequired
  | SessionEncSecretRequired

text \<open>
  \<^verbatim>\<open>JSON.stringify\<close> and \<^verbatim>\<open>JSON.parse\<close> at one TypeScript type \<open>T\<close> (the
  \<open>T\<close> of \<^verbatim>\<open>get<T>\<close>). \<^verbatim>\<open>JSON.parse\<close> throws, or gives \<^verbatim>\<open>null\<close>, or gives a
  value of \<open>T\<close>.
\<close>

datatype 'v parsed = Throws | Null | Value 'v

text \<open>
  What the engine can throw while an identity token is decoded: a \<^verbatim>\<open>TypeError\<close> for
  \<^verbatim>\<open>parts[1].replace\<close> on a token with no second part, the exception of \<^verbatim>\<open>atob\<close>,
  and whatever \<^verbatim>\<open>decodeURIComponent\<close>, \<^verbatim>\<open>JSON.parse\<close> or the read of \<^verbatim>\<open>.sub\<close> on a
  \<^verbatim>\<open>null\<close> payload throws.
\<close>

datatype fault = NoSecondPart | AtobFailed | PayloadFailed

record 'v codec =
  stringify :: "'v \<Rightarrow> string"
  parse :: "string \<Rightarrow> 'v parsed"

text \<open>
  What the runtime provides and the repository only calls: Web Crypto
  (\<^verbatim>\<open>crypto.subtle.digest('SHA-256')\<close>, AES-GCM \<^verbatim>\<open>encrypt\<close>/\<^verbatim>\<open>decrypt\<close>, the latter
  \<open>None\<close> when it throws, \<^verbatim>\<open>crypto.getRandomValues\<close> as a stream of bytes read at
  a position, \<^verbatim>\<open>crypto.randomUUID\<close>), \<^verbatim>\<open>btoa\<close>/\<^verbatim>\<open>atob\<close> (\<open>None\<close> when it
  throws), \<^verbatim>\<open>TextEncoder\<close>/\<^verbatim>\<open>TextDecoder\<close>, \<^verbatim>\<open>URLSearchParams.toString\<close>, JSON at
  the three types the program stores, the decoding of an identity token's payload
  text to its \<^verbatim>\<open>sub\<close> claim (\<open>None\<close> when that throws, \<open>Some None\<close> when the payload
  has no \<^verbatim>\<open>sub\<close>), and the message of the exception the engine throws for a fault on
  an input.
\<close>

record platform =
  sha256 :: "bytes \<Rightarrow> bytes"
  aes_gcm_encrypt :: "bytes \<Rightarrow> bytes \<Rightarrow> bytes \<Rightarrow> bytes"
  aes_gcm_decrypt :: "bytes \<Rightarrow> bytes \<Rightarrow> bytes \<Rightarrow> bytes option"
  btoa :: "string \<Rightarrow> string"
  atob :: "string \<Rightarrow> string option"
  text_encode :: "string \<Rightarrow> bytes"
  text_decode :: "bytes \<Rightarrow> string"
  entropy :: "nat \<Rightarrow> char"
  uuid_of :: "bytes \<Rightarrow> string"
  url_search_params :: "(string \<times> string) list \<Rightarrow> string"
  json_string :: "string codec"
  json_session :: "stored_session codec"
  json_auth_state :: "auth_state codec"
  payload_sub :: "string \<Rightarrow> string option option"
  thrown_message :: "fault \<Rightarrow> string \<Rightarrow> string"

text \<open>
  The state outside the program: the key-value namespace (each key with its value and
  its absolute expiration in epoch seconds, if any), the position in the random
  stream, the requests sent to the provider's token endpoint so far, and the session
  cookie set on the response.
\<close>

record world =
  kv :: "string \<rightharpoonup> (string \<times> int option)"
  rng :: nat
  fetched :: "request list"
  cookie :: "string option"

section \<open>The key-value backend\<close>

text \<open>
  Modelled from the spec: the key-value backend is an external collaborator, not part
  of the repository (\<^verbatim>\<open>get(key) -> string|null\<close>, \<^verbatim>\<open>put(key, value, ttl)\<close>,
  \<^verbatim>\<open>delete(key)\<close>, TTL-expiring). A key is visible strictly before its expiration;
  storage failures and eventual consistency are not modelled.
\<close>

definition backend_get :: "int \<Rightarrow> world \<Rightarrow> string \<Rightarrow> string option" where
  "backend_get now_s w key =
     (case kv w key of
        None \<Rightarrow> None
      | Some (v, None) \<Rightarrow> Some v
      | Some (v, Some e) \<Rightarrow> (if now_s < e then Some v else None))"

definition backend_put :: "string \<Rightarrow> string \<Rightarrow> int option \<Rightarrow> world \<Rightarrow> world" where
  "backend_put key v expiration w = w\<lparr>kv := (kv w)(key \<mapsto> (v, expiration))\<rparr>"

definition backend_delete :: "string \<Rightarrow> world \<Rightarrow> world" where
  "backend_delete key w = w\<lparr>kv := (kv w)(key := None)\<rparr>"

section \<open>JavaScript helpers\<close>

text \<open>\<^verbatim>\<open>s.split(d)\<close> for a one-character separator: always at least one part.\<close>

fun js_split :: "char \<Rightarrow> string \<Rightarrow> string list" where
  "js_split d [] = [[]]"
| "js_split d (c # cs) =
     (if c = d then [] # js_split d cs
      else (case js_split d cs of
              [] \<Rightarrow> [[c]]
            | p # ps \<Rightarrow> (c # p) # ps))"

text \<open>Truthiness of a \<^verbatim>\<open>string | undefined\<close> and of a string.\<close>

definition truthy :: "string option \<Rightarrow> bool" where
  "truthy x = (case x of None \<Rightarrow> False | Some s \<Rightarrow> s \<noteq> [])"

text \<open>\<^verbatim>\<open>a || b\<close> on \<^verbatim>\<open>string | undefined\<close>, and \<^verbatim>\<open>a || d\<close> on \<^verbatim>\<open>number | undefined\<close>.\<close>

definition or_string :: "string option \<Rightarrow> string option \<Rightarrow> string option" where
  "or_string a b = (if truthy a then a else b)"

definition or_number :: "int option \<Rightarrow> int \<Rightarrow> int" where
  "or_number a d = (case a of None \<Rightarrow> d | Some n \<Rightarrow> if n = 0 then d else n)"

text \<open>\<^verbatim>\<open>crypto.getRandomValues(new Uint8Array(n))\<close>: the next \<open>n\<close> bytes of the stream.\<close>

definition getRandomValues :: "platform \<Rightarrow> nat \<Rightarrow> world \<Rightarrow> bytes \<times> world" where
  "getRandomValues P n w = (map (entropy P) [rng w ..< rng w + n], w\<lparr>rng := rng w + n\<rparr>)"

section \<open>KVService (kv.service.ts)\<close>

text \<open>
  The fields of the class. The namespace handle \<^verbatim>\<open>this.kv\<close> is the \<open>kv\<close> of the
  world (every construction in the program is guarded by \<^verbatim>\<open>if (c.env.SESSIONS_KV)\<close>),
  and the \<^verbatim>\<open>derivedKeys\<close> cache only memoises \<open>getKey\<close>.
\<close>

record KVService =
  secrets :: "string list"
  requireSecret :: bool

text \<open>The constructor's \<^verbatim>\<open>secret?: string | string[]\<close>.\<close>

datatype secret_arg = NoSecret | Secret string | Secrets "string list"

text \<open>
  \<^verbatim>\<open>constructor(kvNamespace, secret?, options?)\<close>; \<open>options\<close> is the
  \<^verbatim>\<open>requireSecret\<close> of the options object (\<open>None\<close>: no object, or none given).
\<close>

definition KVService_constructor :: "secret_arg \<Rightarrow> bool option \<Rightarrow> error + KVService" where
  "KVService_constructor secret options =
     (let ss = (case secret of
                  Secrets xs \<Rightarrow> filter (\<lambda>s. s \<noteq> []) xs
                | Secret s \<Rightarrow> (if s \<noteq> [] then [s] else [])
                | NoSecret \<Rightarrow> []);
          req = (options \<noteq> Some False)
      in if req \<and> length ss = 0 then Inl KVEncryptionRequired
         else Inr \<lparr>secrets = ss, requireSecret = req\<rparr>)"

definition getKey :: "platform \<Rightarrow> string \<Rightarrow> bytes" where
  "getKey P secret = sha256 P (text_encode P secret)"

definition arrayBufferToBase64 :: "platform \<Rightarrow> bytes \<Rightarrow> string" where
  "arrayBufferToBase64 P buffer = btoa P buffer"

definition base64ToArrayBuffer :: "platform \<Rightarrow> string \<Rightarrow> bytes option" where
  "base64ToArrayBuffer P b64 = atob P b64"

definition KVService_put ::
  "platform \<Rightarrow> 'v codec \<Rightarrow> KVService \<Rightarrow> string \<Rightarrow> 'v \<Rightarrow> int option \<Rightarrow> world \<Rightarrow> world" where
  "KVService_put P J svc key v expirationTtl w =
     (let dataToStore = stringify J v in
      if length (secrets svc) > 0 then
        (let primarySecret = hd (secrets svc);
             keyObj = getKey P primarySecret;
             (iv, w') = getRandomValues P 12 w;
             ciphertext = aes_gcm_encrypt P keyObj iv (text_encode P dataToStore)
         in backend_put key
              (arrayBufferToBase64 P iv @ '':'' @ arrayBufferToBase64 P ciphertext)
              expirationTtl w')
      else backend_put key dataToStore expirationTtl w)"

text \<open>
  One round of the \<^verbatim>\<open>for (const secret of this.secrets)\<close> loop of \<open>get\<close>: \<open>None\<close> is
  \<^verbatim>\<open>continue\<close> (a wrong format, or anything thrown inside the \<^verbatim>\<open>try\<close>), \<open>Some r\<close>
  is \<^verbatim>\<open>return\<close> of \<open>r\<close>, where \<open>r = None\<close> is \<^verbatim>\<open>null\<close>.
\<close>

definition decrypt_with ::
  "platform \<Rightarrow> 'v codec \<Rightarrow> string \<Rightarrow> string \<Rightarrow> 'v option option" where
  "decrypt_with P J v secret =
     (let parts = js_split CHR '':'' v in
      if length parts \<noteq> 2 then None
      else
        (case base64ToArrayBuffer P (parts ! 0) of
           None \<Rightarrow> None
         | Some iv \<Rightarrow>
             (case base64ToArrayBuffer P (parts ! 1) of
                None \<Rightarrow> None
              | Some ciphertext \<Rightarrow>
                  (case aes_gcm_decrypt P (getKey P secret) iv ciphertext of
                     None \<Rightarrow> None
                   | Some decrypted \<Rightarrow>
                       (case parse J (text_decode P decrypted) of
                          Throws \<Rightarrow> None
                        | Null \<Rightarrow> Some None
                        | Value x \<Rightarrow> Some (Some x))))))"

fun try_secrets ::
  "platform \<Rightarrow> 'v codec \<Rightarrow> string \<Rightarrow> string list \<Rightarrow> 'v option option" where
  "try_secrets P J v [] = None"
| "try_secrets P J v (secret # rest) =
     (case decrypt_with P J v secret of
        Some r \<Rightarrow> Some r
      | None \<Rightarrow> try_secrets P J v rest)"

text \<open>\<^verbatim>\<open>try { return JSON.parse(value) } catch { return null }\<close>.\<close>

definition parse_or_null :: "'v codec \<Rightarrow> string \<Rightarrow> 'v option" where
  "parse_or_null J v = (case parse J v of Throws \<Rightarrow> None | Null \<Rightarrow> None | Value x \<Rightarrow> Some x)"

text \<open>
  \<^verbatim>\<open>get<T>(key)\<close> at the time \<open>now\<close> (epoch milliseconds); \<open>None\<close> is the \<^verbatim>\<open>null\<close> it
  returns.
\<close>

definition KVService_get ::
  "platform \<Rightarrow> 'v codec \<Rightarrow> KVService \<Rightarrow> int \<Rightarrow> world \<Rightarrow> string \<Rightarrow> 'v option" where
  "KVService_get P J svc now w key =
     (case backend_get (now div 1000) w key of
        None \<Rightarrow> None
      | Some v \<Rightarrow>
          if v = [] then None
          else if length (secrets svc) = 0 then parse_or_null J v
          else (case try_secrets P J v (secrets svc) of
                  Some r \<Rightarrow> r
                | None \<Rightarrow> parse_or_null J v))"

definition KVService_delete :: "string \<Rightarrow> world \<Rightarrow> world" where
  "KVService_delete key w = backend_delete key w"

section \<open>Token endpoint calls (auth.service.ts)\<close>

text \<open>\<^verbatim>\<open>CloudflareBindings\<close>; \<open>SESSIONS_KV\<close> says whether the namespace is bound.\<close>

record Bindings =
  CLIENT_ID :: string
  CLIENT_SECRET :: string
  REDIRECT_URI :: string
  ENV_URI :: string
  SESSION_ENC_SECRET :: "string option"
  SESSIONS_KV :: bool

text \<open>
  A \<^verbatim>\<open>string | undefined\<close> put into \<^verbatim>\<open>URLSearchParams\<close> or a template literal
  (\<^verbatim>\<open>`user_session:${userId}`\<close>): \<^verbatim>\<open>undefined\<close> becomes the text "undefined".
\<close>

definition String_of :: "string option \<Rightarrow> string" where
  "String_of x = (case x of None \<Rightarrow> ''undefined'' | Some s \<Rightarrow> s)"

text \<open>The \<^verbatim>\<open>fetch\<close> of \<open>refreshAccessToken\<close>: the POST it sends to the token endpoint.\<close>

definition refresh_request :: "Bindings \<Rightarrow> string option \<Rightarrow> request" where
  "refresh_request ev rt =
     \<lparr>req_url = ENV_URI ev @ ''/a/consumer/api/v0/oidc/token'',
      req_form = [(''client_id'', CLIENT_ID ev),
                  (''client_secret'', CLIENT_SECRET ev),
                  (''grant_type'', ''refresh_token''),
                  (''refresh_token'', String_of rt)]\<rparr>"

definition refreshAccessToken ::
  "upstream \<Rightarrow> Bindings \<Rightarrow> string option \<Rightarrow> world \<Rightarrow> (error + TokenResponse) \<times> world" where
  "refreshAccessToken U ev rt w =
     (let rq = refresh_request ev rt;
          w' = w\<lparr>fetched := fetched w @ [rq]\<rparr>
      in case U rq of
           Http_error status statusText body \<Rightarrow> (Inl (TokenRefreshFailed status statusText), w')
         | Http_ok tokenResponse \<Rightarrow> (Inr tokenResponse, w')
         | Fetch_rejected m \<Rightarrow> (Inl (FetchRejected m), w'))"

definition exchangeCodeForToken ::
  "upstream \<Rightarrow> Bindings \<Rightarrow> string \<Rightarrow> string \<Rightarrow> world \<Rightarrow> (error + TokenResponse) \<times> world" where
  "exchangeCodeForToken U ev code verifier w =
     (let rq = \<lparr>req_url = ENV_URI ev @ ''/a/consumer/api/v0/oidc/token'',
                 req_form = [(''client_id'', CLIENT_ID ev),
                             (''client_secret'', CLIENT_SECRET ev),
                             (''grant_type'', ''authorization_code''),
                             (''code'', code),
                             (''redirect_uri'', REDIRECT_URI ev),
                             (''code_verifier'', verifier)]\<rparr>;
          w' = w\<lparr>fetched := fetched w @ [rq]\<rparr>
      in case U rq of
           Http_error status statusText body \<Rightarrow>
             (Inl (TokenExchangeFailed status statusText body), w')
         | Http_ok tokens \<Rightarrow> (Inr tokens, w')
         | Fetch_rejected m \<Rightarrow> (Inl (FetchRejected m), w'))"

section \<open>SessionService (session.service.ts)\<close>

text \<open>
  The \<^verbatim>\<open>try\<close>/\<^verbatim>\<open>catch\<close> blocks around calls of the store (in \<open>getUserSessionId\<close>,
  \<open>getSession\<close>, \<open>deleteSession\<close>, \<open>deleteUserSession\<close>, \<open>updateSession\<close>) catch
  storage failures, which the backend here does not have; the \<^verbatim>\<open>catch\<close> around the
  refresh in \<open>getSession\<close> and \<open>refreshTokens\<close> is the \<open>Inl\<close> branch.
\<close>

record SessionService =
  kvService :: KVService
  env :: Bindings

text \<open>
  \<^verbatim>\<open>constructor(kvNamespace, kvEncryptionSecret: string, env)\<close>. The callers pass
  \<^verbatim>\<open>c.env.SESSION_ENC_SECRET!\<close>, which is \<^verbatim>\<open>undefined\<close> when the binding is absent.
\<close>

definition SessionService_constructor :: "string option \<Rightarrow> Bindings \<Rightarrow> error + SessionService" where
  "SessionService_constructor kvEncryptionSecret e =
     (case KVService_constructor
             (case kvEncryptionSecret of None \<Rightarrow> NoSecret | Some s \<Rightarrow> Secret s) (Some True) of
        Inl err \<Rightarrow> Inl err
      | Inr k \<Rightarrow> Inr \<lparr>kvService = k, env = e\<rparr>)"

text \<open>
  \<^verbatim>\<open>Math.floor(data.expiresAt / 1000)\<close> as it reaches the store, \<^verbatim>\<open>kvRes.expiresAt &&
  kvRes.expiresAt < now\<close>, and \<^verbatim>\<open>kvRes.expiresAt * 1000\<close>.
\<close>

definition floor_seconds :: "jsnum \<Rightarrow> jsonnum" where
  "floor_seconds x = (case x of Num t \<Rightarrow> JNum (t div 1000) | NaN \<Rightarrow> JNull)"

definition expired :: "jsonnum \<Rightarrow> int \<Rightarrow> bool" where
  "expired e now_s = (case e of JNum n \<Rightarrow> n \<noteq> 0 \<and> n < now_s | JNull \<Rightarrow> False | JAbsent \<Rightarrow> False)"

definition times_1000 :: "jsonnum \<Rightarrow> jsnum" where
  "times_1000 e = (case e of JNum n \<Rightarrow> Num (n * 1000) | JNull \<Rightarrow> Num 0 | JAbsent \<Rightarrow> NaN)"

definition stored_of :: "SessionData \<Rightarrow> stored_session" where
  "stored_of d =
     \<lparr>kv_userId = userId d, kv_accessToken = accessToken d,
      kv_refreshToken = refreshToken d, kv_expiresAt = floor_seconds (expiresAt d)\<rparr>"

definition deleteSession :: "string \<Rightarrow> world \<Rightarrow> world" where
  "deleteSession sessionId w = KVService_delete (''session:'' @ sessionId) w"

definition deleteUserSession :: "string \<Rightarrow> world \<Rightarrow> world" where
  "deleteUserSession uid w = KVService_delete (''user_session:'' @ uid) w"

definition getUserSessionId ::
  "platform \<Rightarrow> SessionService \<Rightarrow> int \<Rightarrow> string \<Rightarrow> world \<Rightarrow> string option" where
  "getUserSessionId P svc now uid w =
     KVService_get P (json_string P) (kvService svc) now w (''user_session:'' @ uid)"

text \<open>
  \<open>createSession\<close> is of the revision of the class that keeps no user index (the
  copy of \<^verbatim>\<open>session.service.ts\<close> that writes the session record only).
\<close>

definition createSession ::
  "platform \<Rightarrow> SessionService \<Rightarrow> int \<Rightarrow> string \<Rightarrow> SessionData \<Rightarrow> world \<Rightarrow> world" where
  "createSession P svc now sessionId d w =
     (let ttl = now div 1000 + 60 * 60 * 24 * 30
      in KVService_put P (json_session P) (kvService svc) (''session:'' @ sessionId)
           (stored_of d) (Some ttl) w)"

definition createUserSession ::
  "platform \<Rightarrow> SessionService \<Rightarrow> int \<Rightarrow> string \<Rightarrow> string \<Rightarrow> SessionData \<Rightarrow> world \<Rightarrow> world" where
  "createUserSession P svc now sessionId uid d w =
     (let ttl = now div 1000 + 60 * 60 * 24 * 30;
          existingSessionId = getUserSessionId P svc now uid w;
          w1 = (case existingSessionId of
                  None \<Rightarrow> w
                | Some old \<Rightarrow> if old \<noteq> [] \<and> old \<noteq> sessionId then deleteSession old w else w);
          w2 = KVService_put P (json_session P) (kvService svc) (''session:'' @ sessionId)
                 (stored_of d) (Some ttl) w1
      in KVService_put P (json_string P) (kvService svc) (''user_session:'' @ uid)
           sessionId (Some ttl) w2)"

definition updateSession ::
  "platform \<Rightarrow> SessionService \<Rightarrow> int \<Rightarrow> string \<Rightarrow> SessionData \<Rightarrow> world \<Rightarrow> world" where
  "updateSession P svc now sessionId d w =
     (let ttl = now div 1000 + 60 * 60 * 24 * 30
      in KVService_put P (json_session P) (kvService svc) (''session:'' @ sessionId)
           (stored_of d) (Some ttl) w)"

text \<open>
  The record both refresh paths build from the stored one and the provider's answer,
  with \<open>now_s = Math.floor(Date.now() / 1000)\<close>.
\<close>

definition refreshed :: "stored_session \<Rightarrow> TokenResponse \<Rightarrow> int \<Rightarrow> SessionData" where
  "refreshed kvRes tokenResponse now_s =
     (let newExpiresAt = now_s + or_number (expires_in tokenResponse) 3600
      in \<lparr>userId = kv_userId kvRes,
          accessToken = access_token tokenResponse,
          refreshToken = or_string (refresh_token tokenResponse) (kv_refreshToken kvRes),
          expiresAt = Num (newExpiresAt * 1000)\<rparr>)"

definition getSession ::
  "platform \<Rightarrow> upstream \<Rightarrow> SessionService \<Rightarrow> int \<Rightarrow> string \<Rightarrow> world
     \<Rightarrow> SessionData option \<times> world" where
  "getSession P U svc now sessionId w =
     (case KVService_get P (json_session P) (kvService svc) now w (''session:'' @ sessionId) of
        None \<Rightarrow> (None, w)
      | Some kvRes \<Rightarrow>
          (let now_s = now div 1000 in
           if expired (kv_expiresAt kvRes) now_s then
             (case refreshAccessToken U (env svc) (kv_refreshToken kvRes) w of
                (Inr tokenResponse, w1) \<Rightarrow>
                  (let d = refreshed kvRes tokenResponse now_s
                   in (Some d, updateSession P svc now sessionId d w1))
              | (Inl refreshError, w1) \<Rightarrow> (None, deleteSession sessionId w1))
           else
             (Some \<lparr>userId = kv_userId kvRes, accessToken = kv_accessToken kvRes,
                    refreshToken = kv_refreshToken kvRes,
                    expiresAt = times_1000 (kv_expiresAt kvRes)\<rparr>, w)))"

definition refreshTokens ::
  "platform \<Rightarrow> upstream \<Rightarrow> SessionService \<Rightarrow> int \<Rightarrow> string \<Rightarrow> world
     \<Rightarrow> SessionData option \<times> world" where
  "refreshTokens P U svc now sessionId w =
     (case KVService_get P (json_session P) (kvService svc) now w (''session:'' @ sessionId) of
        None \<Rightarrow> (None, w)
      | Some session \<Rightarrow>
          (case refreshAccessToken U (env svc) (kv_refreshToken session) w of
             (Inr tokenResponse, w1) \<Rightarrow>
               (let updatedSession = refreshed session tokenResponse (now div 1000)
                in (Some updatedSession, updateSession P svc now sessionId updatedSession w1))
           | (Inl err, w1) \<Rightarrow> (None, w1)))"

section \<open>Login initiation and the callback (auth.service.ts)\<close>

definition SCOPES :: "string list" where
  "SCOPES =
     [''openid'',
      ''offline_access'',
      ''profile'',
      ''https://api.banno.com/consumer/auth/accounts.readonly'',
      ''https://api.banno.com/consumer/auth/user.readonly'',
      ''https://api.banno.com/consumer/auth/user.profile.readonly'',
      ''https://api.banno.com/consumer/claim/devices.readonly'',
      ''https://api.banno.com/consumer/claim/netteller_id.readonly'',
      ''https://api.banno.com/consumer/claim/phone_numbers.readonly'',
      ''https://api.banno.com/consumer/claim/user_type.readonly'',
      ''https://api.banno.com/consumer/auth/documents.readonly'',
      ''https://api.banno.com/consumer/auth/transactions.detail.readonly'',
      ''https://api.banno.com/consumer/claim/customer_identifier.readonly'',
      ''https://api.banno.com/consumer/claim/loans.readonly'',
      ''https://api.banno.com/consumer/claim/shares.readonly'']"

text \<open>\<^verbatim>\<open>xs.join(sep)\<close>, \<^verbatim>\<open>s.replace(/a/g, b)\<close> for characters, and \<^verbatim>\<open>s.replace(/=+$/, '')\<close>.\<close>

fun join :: "string \<Rightarrow> string list \<Rightarrow> string" where
  "join sep [] = []"
| "join sep [x] = x"
| "join sep (x # y # ys) = x @ sep @ join sep (y # ys)"

definition replace_all :: "char \<Rightarrow> char \<Rightarrow> string \<Rightarrow> string" where
  "replace_all a b s = map (\<lambda>c. if c = a then b else c) s"

definition strip_padding :: "string \<Rightarrow> string" where
  "strip_padding s = rev (dropWhile (\<lambda>c. c = CHR ''='') (rev s))"

definition base64UrlEncode :: "platform \<Rightarrow> bytes \<Rightarrow> string" where
  "base64UrlEncode P array =
     strip_padding (replace_all CHR ''/'' CHR ''_'' (replace_all CHR ''+'' CHR ''-'' (btoa P array)))"

definition generateRandomString :: "platform \<Rightarrow> nat \<Rightarrow> world \<Rightarrow> string \<times> world" where
  "generateRandomString P n w =
     (let (array, w') = getRandomValues P n w in (base64UrlEncode P array, w'))"

text \<open>\<open>generatePKCE\<close> returns \<^verbatim>\<open>{ codeVerifier, codeChallenge }\<close>, here a pair.\<close>

definition generatePKCE :: "platform \<Rightarrow> world \<Rightarrow> (string \<times> string) \<times> world" where
  "generatePKCE P w =
     (let (verifier, w') = generateRandomString P 32 w;
          hash = sha256 P (text_encode P verifier);
          codeChallenge = base64UrlEncode P hash
      in ((verifier, codeChallenge), w'))"

record AuthInitResult =
  url :: string
  codeVerifier :: string
  state :: string

definition generateAuthUrl :: "platform \<Rightarrow> Bindings \<Rightarrow> world \<Rightarrow> AuthInitResult \<times> world" where
  "generateAuthUrl P ev w =
     (let ((verifier, codeChallenge), w1) = generatePKCE P w;
          (st, w2) = generateRandomString P 16 w1;
          params = url_search_params P
                     [(''client_id'', CLIENT_ID ev),
                      (''response_type'', ''code''),
                      (''scope'', join '' '' SCOPES),
                      (''redirect_uri'', REDIRECT_URI ev),
                      (''code_challenge'', codeChallenge),
                      (''code_challenge_method'', ''S256''),
                      (''state'', st)]
      in (\<lparr>url = ENV_URI ev @ ''/a/consumer/api/v0/oidc/auth?'' @ params,
           codeVerifier = verifier, state = st\<rparr>, w2))"

text \<open>The \<^verbatim>\<open>secret?\<close> argument when \<^verbatim>\<open>c.env.SESSION_ENC_SECRET\<close> is passed.\<close>

definition secret_of_env :: "Bindings \<Rightarrow> secret_arg" where
  "secret_of_env ev = (case SESSION_ENC_SECRET ev of None \<Rightarrow> NoSecret | Some s \<Rightarrow> Secret s)"

definition initiateAuth ::
  "platform \<Rightarrow> Bindings \<Rightarrow> int \<Rightarrow> world \<Rightarrow> (error + string) \<times> world" where
  "initiateAuth P ev now w =
     (let (r, w1) = generateAuthUrl P ev w in
      if SESSIONS_KV ev then
        (case KVService_constructor (secret_of_env ev) (Some False) of
           Inl err \<Rightarrow> (Inl err, w1)
         | Inr k \<Rightarrow>
             (let ttl = now div 1000 + 600
              in (Inr (url r),
                  KVService_put P (json_auth_state P) k (''auth_state:'' @ state r)
                    \<lparr>as_codeVerifier = codeVerifier r\<rparr> (Some ttl) w1)))
      else (Inr (url r), w1))"

text \<open>The query parameters \<^verbatim>\<open>c.req.query(...)\<close> of a callback request.\<close>

record callback_query =
  q_code :: "string option"
  q_error :: "string option"
  q_error_description :: "string option"
  q_state :: "string option"

text \<open>\<^verbatim>\<open>a || d\<close> where \<open>d\<close> is a string.\<close>

definition or_else :: "string option \<Rightarrow> string \<Rightarrow> string" where
  "or_else a d = (case a of None \<Rightarrow> d | Some s \<Rightarrow> if s = [] then d else s)"

definition processAuthCallback ::
  "platform \<Rightarrow> upstream \<Rightarrow> Bindings \<Rightarrow> int \<Rightarrow> callback_query \<Rightarrow> world
     \<Rightarrow> (error + TokenResponse) \<times> world" where
  "processAuthCallback P U ev now q w =
     (if truthy (q_error q) then
        (Inl (ProviderError
                (or_else (q_error_description q) (or_else (q_error q) ''Unknown error''))), w)
      else if \<not> truthy (q_code q) then (Inl NoCodeProvided, w)
      else if \<not> truthy (q_state q) then (Inl NoStateProvided, w)
      else if SESSIONS_KV ev then
        (case KVService_constructor (secret_of_env ev) (Some False) of
           Inl err \<Rightarrow> (Inl err, w)
         | Inr k \<Rightarrow>
             (case KVService_get P (json_auth_state P) k now w
                     (''auth_state:'' @ String_of (q_state q)) of
                Some authState \<Rightarrow>
                  (let verifier = as_codeVerifier authState;
                       w1 = KVService_delete (''auth_state:'' @ String_of (q_state q)) w
                   in if verifier = [] then (Inl MissingCodeVerifier, w1)
                      else exchangeCodeForToken U ev (String_of (q_code q)) verifier w1)
              | None \<Rightarrow> (Inl InvalidOrExpiredOAuthState, w)))
      else (Inl KVNamespaceRequired, w))"

section \<open>The callback orchestration (utils/auth.ts, utils/crypto.ts) and its route\<close>

text \<open>
  \<open>decodeJwtPayload\<close> followed by the read of \<^verbatim>\<open>.sub\<close>: the second dot-separated
  part of the token, base64url turned into base64, \<^verbatim>\<open>atob\<close>, then the platform's
  decoding of that text to the \<^verbatim>\<open>sub\<close> claim, which is \<^verbatim>\<open>undefined\<close> (\<open>None\<close>) when
  the payload has none.
\<close>

definition decodeJwtPayload :: "platform \<Rightarrow> string \<Rightarrow> error + string option" where
  "decodeJwtPayload P token =
     (let parts = js_split CHR ''.'' token in
      if length parts < 2 then Inl (Thrown (thrown_message P NoSecondPart token))
      else
        (let payload = replace_all CHR ''_'' CHR ''/'' (replace_all CHR ''-'' CHR ''+'' (parts ! 1))
         in case atob P payload of
              None \<Rightarrow> Inl (Thrown (thrown_message P AtobFailed payload))
            | Some decoded \<Rightarrow>
                (case payload_sub P decoded of
                   None \<Rightarrow> Inl (Thrown (thrown_message P PayloadFailed decoded))
                 | Some sub \<Rightarrow> Inr sub)))"

definition randomUUID :: "platform \<Rightarrow> world \<Rightarrow> string \<times> world" where
  "randomUUID P w = (let (bs, w') = getRandomValues P 16 w in (uuid_of P bs, w'))"

text \<open>\<^verbatim>\<open>Date.now() + (tokens.expires_in * 1000)\<close>.\<close>

definition expiry_of :: "int \<Rightarrow> int option \<Rightarrow> jsnum" where
  "expiry_of now e = (case e of None \<Rightarrow> NaN | Some n \<Rightarrow> Num (now + n * 1000))"

definition handleOAuthCallback ::
  "platform \<Rightarrow> upstream \<Rightarrow> Bindings \<Rightarrow> int \<Rightarrow> callback_query \<Rightarrow> world
     \<Rightarrow> (error + string) \<times> world" where
  "handleOAuthCallback P U ev now q w =
     (case processAuthCallback P U ev now q w of
        (Inl err, w1) \<Rightarrow> (Inl err, w1)
      | (Inr tokens, w1) \<Rightarrow>
          if access_token tokens = [] then (Inl NoAccessToken, w1)
          else
            (case decodeJwtPayload P (id_token tokens) of
               Inl err \<Rightarrow> (Inl err, w1)
             | Inr sub \<Rightarrow>
                 if \<not> SESSIONS_KV ev then (Inl SessionsKVRequired, w1)
                 else if \<not> truthy (SESSION_ENC_SECRET ev) then (Inl SessionEncSecretRequired, w1)
                 else
                   (case SessionService_constructor (SESSION_ENC_SECRET ev) ev of
                      Inl err \<Rightarrow> (Inl err, w1)
                    | Inr sessionService \<Rightarrow>
                        (let uid = String_of sub;
                             d = \<lparr>userId = sub, accessToken = access_token tokens,
                                  refreshToken = refresh_token tokens,
                                  expiresAt = expiry_of now (expires_in tokens)\<rparr>;
                             existingSessionId = getUserSessionId P sessionService now uid w1;
                             (sessionId, w2) =
                               (if truthy existingSessionId then
                                  (String_of existingSessionId,
                                   updateSession P sessionService now
                                     (String_of existingSessionId) d w1)
                                else
                                  (let (fresh, w') = randomUUID P w1
                                   in (fresh, createUserSession P sessionService now fresh uid d w')))
                         in (Inr sessionId, w2\<lparr>cookie := Some sessionId\<rparr>)))))"

text \<open>Decimal digits of a status code, for \<^verbatim>\<open>`${response.status}`\<close>.\<close>

function decimal :: "nat \<Rightarrow> string" where
  "decimal n = (if n < 10 then [char_of (48 + n)] else decimal (n div 10) @ [char_of (48 + n mod 10)])"
  by pat_completeness auto
termination
  by (relation "measure id") auto

text \<open>\<^verbatim>\<open>error.message\<close>.\<close>

fun message :: "error \<Rightarrow> string" where
  "message KVEncryptionRequired =
     ''KV encryption required but no '' @ [CHR 0x60] @ ''SESSION_ENC_SECRET'' @ [CHR 0x60] @ '' provided''"
| "message (ProviderError m) = m"
| "message NoCodeProvided = ''No code provided''"
| "message NoStateProvided = ''No state provided''"
| "message InvalidOrExpiredOAuthState = ''Invalid or expired OAuth state''"
| "message KVNamespaceRequired = ''KV namespace required for authentication''"
| "message MissingCodeVerifier = ''Invalid state or missing code verifier''"
| "message (TokenExchangeFailed status statusText body) =
     ''Token exchange failed: '' @ decimal status @ '' '' @ statusText @ '' - '' @ body"
| "message (TokenRefreshFailed status statusText) =
     ''Token refresh failed: '' @ decimal status @ '' '' @ statusText"
| "message (FetchRejected m) = m"
| "message NoAccessToken = ''Token exchange failed''"
| "message (Thrown m) = m"
| "message SessionsKVRequired = ''SESSIONS_KV required''"
| "message SessionEncSecretRequired = ''SESSION_ENC_SECRET required''"

text \<open>\<^verbatim>\<open>c.redirect(location)\<close> and \<^verbatim>\<open>c.text(body, status)\<close>.\<close>

datatype response = Redirect string | Text string nat

text \<open>\<^verbatim>\<open>router.get('/callback', ...)\<close> of \<open>createAuthRoutes\<close>.\<close>

definition callback_route ::
  "platform \<Rightarrow> upstream \<Rightarrow> Bindings \<Rightarrow> int \<Rightarrow> callback_query \<Rightarrow> world \<Rightarrow> response \<times> world" where
  "callback_route P U ev now q w =
     (if truthy (q_error q) then
        (Text (''Authentication Error: '' @ or_else (q_error_description q) (String_of (q_error q)))
           400, w)
      else if \<not> truthy (q_code q) then (Redirect ''/auth/login'', w)
      else
        (case handleOAuthCallback P U ev now q w of
           (Inr sessionId, w1) \<Rightarrow> (Redirect ''/callback/plugin'', w1)
         | (Inl err, w1) \<Rightarrow> (Text (''Error during authentication: '' @ message err) 500, w1)))"

section \<open>What is assumed of the platform\<close>

text \<open>
  AES-GCM decrypts what it encrypted under the same key and nonce; \<^verbatim>\<open>atob\<close> inverts
  \<^verbatim>\<open>btoa\<close>, whose alphabet has no colon; \<^verbatim>\<open>TextDecoder\<close> inverts \<^verbatim>\<open>TextEncoder\<close>. A
  value is JSON-serializable when \<^verbatim>\<open>JSON.parse(JSON.stringify(v))\<close> is deep-equal to
  it. \<open>rejects P s' s\<close> is the authentication of AES-GCM, idealised: the key derived
  from \<open>s'\<close> opens no ciphertext made under the key derived from \<open>s\<close>.
\<close>

definition aead_correct :: "platform \<Rightarrow> bool" where
  "aead_correct P = (\<forall>k iv p. aes_gcm_decrypt P k iv (aes_gcm_encrypt P k iv p) = Some p)"

definition base64_ok :: "platform \<Rightarrow> bool" where
  "base64_ok P = ((\<forall>x. atob P (btoa P x) = Some x) \<and> (\<forall>x. CHR '':'' \<notin> set (btoa P x)))"

definition text_ok :: "platform \<Rightarrow> bool" where
  "text_ok P = (\<forall>s. text_decode P (text_encode P s) = s)"

definition serializable :: "'v codec \<Rightarrow> 'v \<Rightarrow> bool" where
  "serializable J v = (parse J (stringify J v) = Value v)"

definition codec_ok :: "'v codec \<Rightarrow> bool" where
  "codec_ok J = (\<forall>v. serializable J v)"

definition rejects :: "platform \<Rightarrow> string \<Rightarrow> string \<Rightarrow> bool" where
  "rejects P s' s =
     (\<forall>iv p. aes_gcm_decrypt P (getKey P s') iv (aes_gcm_encrypt P (getKey P s) iv p) = None)"

definition crypto_ok :: "platform \<Rightarrow> bool" where
  "crypto_ok P = (aead_correct P \<and> base64_ok P \<and> text_ok P)"

definition platform_ok :: "platform \<Rightarrow> bool" where
  "platform_ok P =
     (crypto_ok P \<and> codec_ok (json_string P) \<and> codec_ok (json_session P)
      \<and> codec_ok (json_auth_state P))"

text \<open>A key is readable at \<open>now\<close> when it was written with no expiration or a later one.\<close>

definition unexpired :: "int option \<Rightarrow> int \<Rightarrow> bool" where
  "unexpired expiration now = (case expiration of None \<Rightarrow> True | Some e \<Rightarrow> now div 1000 < e)"

section \<open>A small platform on which the statements can be run\<close>

text \<open>
  An instance of the platform that meets the assumptions above, used to evaluate the
  program on concrete inputs: an escaping code for \<^verbatim>\<open>btoa\<close>, a cipher that prefixes
  key and nonce, the identity for the digest and the text codecs, and colon-separated
  fields for JSON.
\<close>

definition toy_btoa :: "string \<Rightarrow> string" where
  "toy_btoa x =
     concat (map (\<lambda>c. if c = CHR '':'' then ''%1'' else if c = CHR ''%'' then ''%0'' else [c]) x)"

fun toy_atob :: "string \<Rightarrow> string option" where
  "toy_atob [] = Some []"
| "toy_atob [c] = (if c = CHR ''%'' \<or> c = CHR '':'' then None else Some [c])"
| "toy_atob (c # d # r) =
     (if c = CHR ''%'' then
        (if d = CHR ''0'' then map_option ((#) CHR ''%'') (toy_atob r)
         else if d = CHR ''1'' then map_option ((#) CHR '':'') (toy_atob r)
         else None)
      else if c = CHR '':'' then None
      else map_option ((#) c) (toy_atob (d # r)))"

definition toy_encrypt :: "bytes \<Rightarrow> bytes \<Rightarrow> bytes \<Rightarrow> bytes" where
  "toy_encrypt k iv p = k @ iv @ p"

definition toy_decrypt :: "bytes \<Rightarrow> bytes \<Rightarrow> bytes \<Rightarrow> bytes option" where
  "toy_decrypt k iv c =
     (if take (length k + length iv) c = k @ iv then Some (drop (length k + length iv) c)
      else None)"

definition toy_json_string :: "string codec" where
  "toy_json_string =
     \<lparr>stringify = (\<lambda>s. CHR 0x22 # s),
      parse = (\<lambda>t. case t of
                     [] \<Rightarrow> Throws
                   | c # r \<Rightarrow> if c = CHR 0x22 then Value r
                              else if t = ''null'' then Null else Throws)\<rparr>"

definition toy_json_auth_state :: "auth_state codec" where
  "toy_json_auth_state =
     \<lparr>stringify = (\<lambda>a. CHR ''{'' # as_codeVerifier a),
      parse = (\<lambda>t. case t of
                     [] \<Rightarrow> Throws
                   | c # r \<Rightarrow> if c = CHR ''{'' then Value \<lparr>as_codeVerifier = r\<rparr>
                              else if t = ''null'' then Null else Throws)\<rparr>"

definition toy_show_opt :: "string option \<Rightarrow> string" where
  "toy_show_opt x = (case x of None \<Rightarrow> ''n'' | Some s \<Rightarrow> CHR ''s'' # toy_btoa s)"

definition toy_read_opt :: "string \<Rightarrow> string option option" where
  "toy_read_opt t =
     (case t of
        [] \<Rightarrow> None
      | c # r \<Rightarrow> if c = CHR ''n'' \<and> r = [] then Some None
                 else if c = CHR ''s'' then map_option Some (toy_atob r)
                 else None)"

definition toy_show_num :: "jsonnum \<Rightarrow> string" where
  "toy_show_num e =
     (case e of
        JNull \<Rightarrow> ''z''
      | JAbsent \<Rightarrow> ''a''
      | JNum n \<Rightarrow> (if n < 0 then CHR ''-'' else CHR ''+'') # replicate (nat \<bar>n\<bar>) CHR ''x'')"

definition toy_read_num :: "string \<Rightarrow> jsonnum option" where
  "toy_read_num t =
     (case t of
        [] \<Rightarrow> None
      | c # r \<Rightarrow> if c = CHR ''z'' then Some JNull
                 else if c = CHR ''a'' then Some JAbsent
                 else if c = CHR ''-'' then Some (JNum (- int (length r)))
                 else if c = CHR ''+'' then Some (JNum (int (length r)))
                 else None)"

definition toy_json_session :: "stored_session codec" where
  "toy_json_session =
     \<lparr>stringify = (\<lambda>r. toy_show_opt (kv_userId r) @ '':'' @ toy_btoa (kv_accessToken r) @ '':''
                        @ toy_show_opt (kv_refreshToken r) @ '':'' @ toy_show_num (kv_expiresAt r)),
      parse = (\<lambda>t. let parts = js_split CHR '':'' t in
                   if length parts \<noteq> 4 then (if t = ''null'' then Null else Throws)
                   else
                     (case (toy_read_opt (parts ! 0), toy_atob (parts ! 1),
                            toy_read_opt (parts ! 2), toy_read_num (parts ! 3)) of
                        (Some u, Some a, Some r, Some e) \<Rightarrow>
                          Value \<lparr>kv_userId = u, kv_accessToken = a,
                                 kv_refreshToken = r, kv_expiresAt = e\<rparr>
                      | _ \<Rightarrow> Throws))\<rparr>"

definition toy_params :: "(string \<times> string) list \<Rightarrow> string" where
  "toy_params ps = join ''&'' (map (\<lambda>(k, v). k @ ''='' @ v) ps)"

definition toy :: platform where
  "toy =
     \<lparr>sha256 = (\<lambda>b. b),
      aes_gcm_encrypt = toy_encrypt,
      aes_gcm_decrypt = toy_decrypt,
      btoa = toy_btoa,
      atob = toy_atob,
      text_encode = (\<lambda>s. s),
      text_decode = (\<lambda>b. b),
      entropy = (\<lambda>n. CHR ''r''),
      uuid_of = (\<lambda>b. b),
      url_search_params = toy_params,
      json_string = toy_json_string,
      json_session = toy_json_session,
      json_auth_state = toy_json_auth_state,
      payload_sub = (\<lambda>t. Some (Some t)),
      thrown_message = (\<lambda>f t. ''thrown'')\<rparr>"

text \<open>A provider that accepts every request, one that refuses every request.\<close>

definition accepting :: "TokenResponse \<Rightarrow> upstream" where
  "accepting t = (\<lambda>rq. Http_ok t)"

definition refusing :: upstream where
  "refusing = (\<lambda>rq. Http_error 400 ''Bad Request'' ''invalid_grant'')"

definition world0 :: world where
  "world0 = \<lparr>kv = Map.empty, rng = 0, fetched = [], cookie = None\<rparr>"

definition env0 :: Bindings where
  "env0 =
     \<lparr>CLIENT_ID = ''client'', CLIENT_SECRET = ''hush'', REDIRECT_URI = ''https://app/callback'',
      ENV_URI = ''https://idp'', SESSION_ENC_SECRET = Some ''k1'', SESSIONS_KV = True\<rparr>"

definition svc0 :: SessionService where
  "svc0 = \<lparr>kvService = \<lparr>secrets = [''k1''], requireSecret = True\<rparr>, env = env0\<rparr>"

section \<open>Predicates used in the statements\<close>

text \<open>The constructor's \<open>secret\<close> argument supplies no non-empty secret.\<close>

definition supplies_no_secret :: "secret_arg \<Rightarrow> bool" where
  "supplies_no_secret secret =
     (case secret of
        NoSecret \<Rightarrow> True
      | Secret s \<Rightarrow> s = []
      | Secrets xs \<Rightarrow> list_all (\<lambda>s. s = []) xs)"

text \<open>
  The spec's "base64url-encoded without padding" (RFC 4648, section 5), written from
  its words and not from the code: base64 with \<open>-\<close> for \<open>+\<close> and \<open>_\<close> for \<open>/\<close>, the
  padding left out; and its decoding, which puts the padding back.
\<close>

definition base64url_spec :: "platform \<Rightarrow> bytes \<Rightarrow> string" where
  "base64url_spec P x =
     filter (\<lambda>c. c \<noteq> CHR ''='')
       (map (\<lambda>c. if c = CHR ''+'' then CHR ''-'' else if c = CHR ''/'' then CHR ''_'' else c)
          (btoa P x))"

definition base64url_spec_decode :: "platform \<Rightarrow> string \<Rightarrow> bytes option" where
  "base64url_spec_decode P s =
     atob P (map (\<lambda>c. if c = CHR ''-'' then CHR ''+'' else if c = CHR ''_'' then CHR ''/'' else c) s
             @ replicate ((4 - length s mod 4) mod 4) CHR ''='')"

text \<open>
  What is assumed of \<^verbatim>\<open>btoa\<close> as standard base64: \<^verbatim>\<open>atob\<close> inverts it, its alphabet
  has neither \<open>-\<close> nor \<open>_\<close>, its output comes in blocks of four characters, and
  \<open>=\<close> occurs only as padding at the end, at most twice.
\<close>

definition base64_std :: "platform \<Rightarrow> bool" where
  "base64_std P =
     ((\<forall>x. atob P (btoa P x) = Some x)
      \<and> (\<forall>x. CHR ''-'' \<notin> set (btoa P x) \<and> CHR ''_'' \<notin> set (btoa P x))
      \<and> (\<forall>x. length (btoa P x) mod 4 = 0)
      \<and> (\<forall>x. \<exists>body k. btoa P x = body @ replicate k CHR ''=''
                        \<and> CHR ''='' \<notin> set body \<and> k < 3))"

text \<open>
  A second small platform, whose \<^verbatim>\<open>btoa\<close> meets \<open>base64_std\<close>: four characters for
  each byte, then a last block \<open>+/==\<close>, so that the translation of \<open>+\<close> and \<open>/\<close> and
  the removal of the padding all take part.
\<close>

definition toy_block :: "char \<Rightarrow> string" where
  "toy_block c =
     (if c = CHR ''='' then ''%0xx''
      else if c = CHR ''-'' then ''%1xx''
      else if c = CHR ''_'' then ''%2xx''
      else if c = CHR ''%'' then ''%3xx''
      else [c, CHR ''x'', CHR ''x'', CHR ''x''])"

fun toy_unblocks :: "string \<Rightarrow> string option" where
  "toy_unblocks [] = Some []"
| "toy_unblocks (a # b # c # d # r) =
     (if a = CHR ''%'' then
        (if b = CHR ''0'' then map_option ((#) CHR ''='') (toy_unblocks r)
         else if b = CHR ''1'' then map_option ((#) CHR ''-'') (toy_unblocks r)
         else if b = CHR ''2'' then map_option ((#) CHR ''_'') (toy_unblocks r)
         else if b = CHR ''3'' then map_option ((#) CHR ''%'') (toy_unblocks r)
         else None)
      else map_option ((#) a) (toy_unblocks r))"
| "toy_unblocks r = None"

definition toy_btoa64 :: "string \<Rightarrow> string" where
  "toy_btoa64 x = concat (map toy_block x) @ ''+/==''"

definition toy_atob64 :: "string \<Rightarrow> string option" where
  "toy_atob64 s = (if length s < 4 then None else toy_unblocks (take (length s - 4) s))"

definition toy64 :: platform where
  "toy64 = toy\<lparr>btoa := toy_btoa64, atob := toy_atob64\<rparr>"

section \<open>Lemmas: splitting, and the small platform meets the assumptions\<close>

lemma js_split_nonempty: "js_split d s \<noteq> []"
  by (induction s) (auto split: list.splits)

lemma js_split_no_sep: "d \<notin> set a \<Longrightarrow> js_split d a = [a]"
  by (induction a) auto

lemma js_split_append: "d \<notin> set a \<Longrightarrow> js_split d (a @ d # b) = a # js_split d b"
  by (induction a) auto

lemma toy_btoa_no_colon: "CHR '':'' \<notin> set (toy_btoa x)"
  by (induction x) (auto simp: toy_btoa_def)

lemma toy_btoa_Cons:
  "toy_btoa (c # x) = (if c = CHR '':'' then ''%1'' else if c = CHR ''%'' then ''%0'' else [c]) @ toy_btoa x"
  by (simp add: toy_btoa_def)

lemma toy_atob_btoa: "toy_atob (toy_btoa x) = Some x"
proof (induction x)
  case Nil
  show ?case by (simp add: toy_btoa_def)
next
  case (Cons c x)
  show ?case
  proof (cases "toy_btoa x")
    case Nil
    with Cons show ?thesis by (auto simp: toy_btoa_Cons)
  next
    case (Cons d r)
    with Cons.IH show ?thesis by (auto simp: toy_btoa_Cons)
  qed
qed

lemma toy_aead: "toy_decrypt k iv (toy_encrypt k iv p) = Some p"
  by (simp add: toy_decrypt_def toy_encrypt_def)

lemma toy_crypto_ok: "crypto_ok toy"
  by (simp add: crypto_ok_def aead_correct_def base64_ok_def text_ok_def toy_def
      toy_aead toy_atob_btoa toy_btoa_no_colon)

lemma toy_string_ok: "codec_ok toy_json_string"
  by (simp add: codec_ok_def serializable_def toy_json_string_def)

lemma toy_auth_ok: "codec_ok toy_json_auth_state"
  by (simp add: codec_ok_def serializable_def toy_json_auth_state_def)

lemma toy_show_opt_no_colon: "CHR '':'' \<notin> set (toy_show_opt x)"
  by (cases x) (auto simp: toy_show_opt_def toy_btoa_no_colon)

lemma toy_show_num_no_colon: "CHR '':'' \<notin> set (toy_show_num e)"
  by (cases e) (auto simp: toy_show_num_def)

lemma toy_read_show_opt: "toy_read_opt (toy_show_opt x) = Some x"
  by (cases x) (auto simp: toy_show_opt_def toy_read_opt_def toy_atob_btoa)

lemma toy_read_show_num: "toy_read_num (toy_show_num e) = Some e"
  by (cases e) (auto simp: toy_show_num_def toy_read_num_def)

lemma toy_session_ok: "codec_ok toy_json_session"
  by (simp add: codec_ok_def serializable_def toy_json_session_def
      js_split_append js_split_no_sep toy_btoa_no_colon toy_show_opt_no_colon toy_show_num_no_colon
      toy_atob_btoa toy_read_show_opt toy_read_show_num)

lemma toy_ok: "platform_ok toy"
  using toy_crypto_ok toy_string_ok toy_auth_ok toy_session_ok
  by (simp add: platform_ok_def toy_def)

section \<open>Lemmas: the encrypted store\<close>

lemma get_cong:
  "kv w key = kv w' key \<Longrightarrow> KVService_get P J svc now w key = KVService_get P J svc now w' key"
  by (simp add: KVService_get_def backend_get_def)

lemma get_absent: "kv w key = None \<Longrightarrow> KVService_get P J svc now w key = None"
  by (simp add: KVService_get_def backend_get_def)



lemma kv_put_other:
  "key' \<noteq> key \<Longrightarrow> kv (KVService_put P J svc key v ex w) key' = kv w key'"
  by (simp add: KVService_put_def backend_put_def getRandomValues_def Let_def)

lemma kv_delete_same: "kv (KVService_delete key w) key = None"
  by (simp add: KVService_delete_def backend_delete_def)

lemma kv_delete_other: "key' \<noteq> key \<Longrightarrow> kv (KVService_delete key w) key' = kv w key'"
  by (simp add: KVService_delete_def backend_delete_def)

lemma fetched_put: "fetched (KVService_put P J svc key v ex w) = fetched w"
  by (simp add: KVService_put_def backend_put_def getRandomValues_def Let_def)

lemma fetched_delete: "fetched (KVService_delete key w) = fetched w"
  by (simp add: KVService_delete_def backend_delete_def)

lemma decrypt_with_own:
  assumes "crypto_ok P" and "serializable J v"
  shows "decrypt_with P J
           (arrayBufferToBase64 P iv @ '':'' @
            arrayBufferToBase64 P (aes_gcm_encrypt P (getKey P s) iv (text_encode P (stringify J v)))) s
         = Some (Some v)"
  using assms
  by (simp add: decrypt_with_def crypto_ok_def aead_correct_def base64_ok_def text_ok_def
      serializable_def arrayBufferToBase64_def base64ToArrayBuffer_def
      js_split_append js_split_no_sep)

lemma decrypt_with_other:
  assumes "crypto_ok P" and "rejects P s' s"
  shows "decrypt_with P J
           (arrayBufferToBase64 P iv @ '':'' @
            arrayBufferToBase64 P (aes_gcm_encrypt P (getKey P s) iv p)) s'
         = None"
  using assms
  by (simp add: decrypt_with_def crypto_ok_def base64_ok_def rejects_def
      arrayBufferToBase64_def base64ToArrayBuffer_def js_split_append js_split_no_sep)

lemma try_secrets_finds:
  assumes "crypto_ok P" and "serializable J v" and "s \<in> set ss"
    and "\<forall>s' \<in> set ss. s' \<noteq> s \<longrightarrow> rejects P s' s"
  shows "try_secrets P J
           (arrayBufferToBase64 P iv @ '':'' @
            arrayBufferToBase64 P (aes_gcm_encrypt P (getKey P s) iv (text_encode P (stringify J v)))) ss
         = Some (Some v)"
  using assms(3,4)
proof (induction ss)
  case Nil
  then show ?case by simp
next
  case (Cons a ss)
  show ?case
  proof (cases "a = s")
    case True
    then show ?thesis using decrypt_with_own[OF assms(1,2)] by simp
  next
    case False
    with Cons.prems have r: "rejects P a s" and m: "s \<in> set ss" by auto
    have ih: "try_secrets P J
           (arrayBufferToBase64 P iv @ '':'' @
            arrayBufferToBase64 P (aes_gcm_encrypt P (getKey P s) iv (text_encode P (stringify J v)))) ss
         = Some (Some v)"
      using Cons.IH m Cons.prems(2) by simp
    show ?thesis
      by (simp only: try_secrets.simps decrypt_with_other[OF assms(1) r] option.case ih)
  qed
qed

lemma get_put_same:
  assumes "crypto_ok P" and "serializable J v"
    and "secrets svc1 \<noteq> []" and "hd (secrets svc1) \<in> set (secrets svc2)"
    and "\<forall>s' \<in> set (secrets svc2). s' \<noteq> hd (secrets svc1) \<longrightarrow> rejects P s' (hd (secrets svc1))"
    and "unexpired ex now"
  shows "KVService_get P J svc2 now (KVService_put P J svc1 key v ex w) key = Some v"
proof -
  have ne: "secrets svc2 \<noteq> []" using assms(4) by auto
  show ?thesis
    using assms(3,6) ne try_secrets_finds[OF assms(1,2,4,5)]
    by (cases ex)
       (simp_all add: KVService_get_def KVService_put_def backend_get_def backend_put_def
          getRandomValues_def Let_def unexpired_def arrayBufferToBase64_def)
qed

lemma get_put_other:
  "key' \<noteq> key \<Longrightarrow>
   KVService_get P J svc now (KVService_put P J' svc1 key v ex w) key' = KVService_get P J svc now w key'"
  by (rule get_cong) (rule kv_put_other)

lemma get_delete_same: "KVService_get P J svc now (KVService_delete key w) key = None"
  by (rule get_absent) (rule kv_delete_same)

lemma get_delete_other:
  "key' \<noteq> key \<Longrightarrow>
   KVService_get P J svc now (KVService_delete key w) key' = KVService_get P J svc now w key'"
  by (rule get_cong) (rule kv_delete_other)

section \<open>Lemmas: the session service\<close>

lemma constructed:
  assumes "SessionService_constructor (Some secret) ev = Inr svc"
  shows "secrets (kvService svc) = [secret]" and "secret \<noteq> []" and "env svc = ev"
  using assms
  by (auto simp: SessionService_constructor_def KVService_constructor_def Let_def
      split: if_splits)

lemma svc0_constructed: "SessionService_constructor (Some ''k1'') env0 = Inr svc0"
  by (simp add: SessionService_constructor_def KVService_constructor_def svc0_def)

lemma own_get_put:
  assumes "crypto_ok P" and "codec_ok J" and "secrets k = [s]" and "unexpired ex now"
  shows "KVService_get P J k now (KVService_put P J k key v ex w) key = Some v"
  using get_put_same[of P J v k k ex now key w] assms by (simp add: codec_ok_def)

lemma session_key_neq [simp]:
  "''session:'' @ a \<noteq> ''user_session:'' @ b" "''user_session:'' @ b \<noteq> ''session:'' @ a"
  by simp_all

lemma unexpired_month: "now div 1000 < tw div 1000 + 2592000 \<Longrightarrow> unexpired (Some (tw div 1000 + 60 * 60 * 24 * 30)) now"
  by (simp add: unexpired_def)

text \<open>Reading a session that is stored and not expired.\<close>

lemma getSession_fresh:
  assumes "KVService_get P (json_session P) (kvService svc) now w (''session:'' @ sid) = Some r"
    and "\<not> expired (kv_expiresAt r) (now div 1000)"
  shows "getSession P U svc now sid w =
           (Some \<lparr>userId = kv_userId r, accessToken = kv_accessToken r,
                  refreshToken = kv_refreshToken r, expiresAt = times_1000 (kv_expiresAt r)\<rparr>, w)"
  using assms by (simp add: getSession_def Let_def)

lemma get_after_createSession:
  assumes "platform_ok P" and "secrets (kvService svc) = [s]"
    and "now div 1000 < tw div 1000 + 2592000"
  shows "KVService_get P (json_session P) (kvService svc) now (createSession P svc tw sid d w)
           (''session:'' @ sid) = Some (stored_of d)"
  using assms unexpired_month[of now tw]
  by (simp add: createSession_def Let_def platform_ok_def own_get_put)

lemma get_after_updateSession:
  assumes "platform_ok P" and "secrets (kvService svc) = [s]"
    and "now div 1000 < tw div 1000 + 2592000"
  shows "KVService_get P (json_session P) (kvService svc) now (updateSession P svc tw sid d w)
           (''session:'' @ sid) = Some (stored_of d)"
  using assms unexpired_month[of now tw]
  by (simp add: updateSession_def Let_def platform_ok_def own_get_put)

lemma get_after_createUserSession:
  assumes "platform_ok P" and "secrets (kvService svc) = [s]"
    and "now div 1000 < tw div 1000 + 2592000"
  shows "KVService_get P (json_session P) (kvService svc) now (createUserSession P svc tw sid uid d w)
           (''session:'' @ sid) = Some (stored_of d)"
  using assms unexpired_month[of now tw]
  by (simp add: createUserSession_def Let_def platform_ok_def own_get_put get_put_other)


section \<open>The encrypted store: round trip and construction\<close>

lemma toy_rejects: "length k' = length k \<Longrightarrow> k' \<noteq> k \<Longrightarrow> rejects toy k' k"
proof -
  assume len: "length k' = length k" and ne: "k' \<noteq> k"
  have "take (length k' + length iv) (k @ iv @ p) \<noteq> k' @ iv" for iv p
  proof
    assume "take (length k' + length iv) (k @ iv @ p) = k' @ iv"
    then have "take (length k') (take (length k' + length iv) (k @ iv @ p)) = take (length k') (k' @ iv)"
      by simp
    then have "k = k'" using len by simp
    with ne show False by simp
  qed
  then show ?thesis
    by (simp add: rejects_def toy_def getKey_def toy_decrypt_def toy_encrypt_def)
qed

text \<open>
  C5. Round trip through the encrypted store under key rotation: a JSON-serializable
  value \<open>v\<close> written with \<open>put\<close> by a service whose primary secret is \<open>s\<close> is
  returned by \<open>get\<close> of any service whose secret list contains \<open>s\<close>, in any
  position, while the key has not expired. The platform is assumed to decrypt its own
  ciphertexts, and the other secrets of the reading list to open no ciphertext made
  under \<open>s\<close>.
\<close>

theorem kv_roundtrip_under_rotation:
  assumes "crypto_ok P" and "serializable J v"
    and "secrets writer = s # others"
    and "s \<in> set (secrets reader)"
    and "\<forall>s' \<in> set (secrets reader). s' \<noteq> s \<longrightarrow> rejects P s' s"
    and "unexpired ttl now"
  shows "KVService_get P J reader now (KVService_put P J writer k v ttl w) k = Some v"
  using get_put_same[of P J v writer reader ttl now k w] assms by simp

theorem kv_roundtrip_under_rotation_witness:
  "KVService_get toy toy_json_string \<lparr>secrets = [''new'', ''old''], requireSecret = True\<rparr> 5000
     (KVService_put toy toy_json_string \<lparr>secrets = [''old''], requireSecret = True\<rparr>
        ''k'' ''hello'' (Some 100) world0) ''k''
   = Some ''hello''"
proof -
  have r: "rejects toy ''new'' ''old''" by (rule toy_rejects) simp_all
  have s: "serializable toy_json_string ''hello''"
    by (simp add: serializable_def toy_json_string_def)
  show ?thesis
    using kv_roundtrip_under_rotation[of toy toy_json_string "''hello''"
        "\<lparr>secrets = [''old''], requireSecret = True\<rparr>" "''old''" "[]"
        "\<lparr>secrets = [''new'', ''old''], requireSecret = True\<rparr>" "Some 100" 5000 "''k''" world0]
      toy_crypto_ok r s
    by (simp add: unexpired_def)
qed

text \<open>
  C8. Constructing the encrypted store with encryption mandatory (the default, or
  \<^verbatim>\<open>requireSecret: true\<close>) and no non-empty secret fails at construction with the
  error of the constructor, so no service exists on which \<open>put\<close>, \<open>get\<close> or
  \<open>delete\<close> could be called. The session service always constructs its store with
  encryption mandatory: over an absent or empty secret its construction fails, and a
  constructed one requires and holds a secret.
\<close>

theorem construction_fails_without_secret:
  "(options \<noteq> Some False \<and> supplies_no_secret secret
      \<longrightarrow> KVService_constructor secret options = Inl KVEncryptionRequired)
   \<and> (\<not> truthy absent \<longrightarrow> SessionService_constructor absent ev = Inl KVEncryptionRequired)
   \<and> (SessionService_constructor given ev = Inr svc
      \<longrightarrow> requireSecret (kvService svc) \<and> secrets (kvService svc) \<noteq> [])"
  by (cases secret; cases absent; cases given)
     (auto simp: KVService_constructor_def SessionService_constructor_def supplies_no_secret_def
        truthy_def Let_def list_all_iff filter_empty_conv split: if_splits)

theorem construction_fails_without_secret_witness:
  "KVService_constructor (Secrets ['''', '''']) None = Inl KVEncryptionRequired
   \<and> SessionService_constructor None env0 = Inl KVEncryptionRequired
   \<and> requireSecret (kvService \<lparr>kvService = \<lparr>secrets = [''k1''], requireSecret = True\<rparr>, env = env0\<rparr>)"
  using construction_fails_without_secret[of None "Secrets ['''', '''']" None env0 "Some ''k1''"
      "\<lparr>kvService = \<lparr>secrets = [''k1''], requireSecret = True\<rparr>, env = env0\<rparr>"]
  by (simp add: supplies_no_secret_def truthy_def SessionService_constructor_def
      KVService_constructor_def)

section \<open>The session store: seconds and milliseconds\<close>

lemma floor_second_bounds:
  "(t::int) div 1000 * 1000 \<le> t \<and> t < t div 1000 * 1000 + 1000
   \<and> (t div 1000 * 1000 = t) = (t mod 1000 = 0)"
proof -
  have a: "t = t div 1000 * 1000 + t mod 1000" by simp
  have b: "0 \<le> t mod 1000" and c: "t mod 1000 < 1000" by simp_all
  from a b c show ?thesis by linarith
qed

lemma stored_read_back:
  assumes "platform_ok P" and "secrets (kvService svc) = [s]"
    and "w' = createSession P svc tw sid d w \<or> w' = createUserSession P svc tw sid uid d w
         \<or> w' = updateSession P svc tw sid d w"
    and "now div 1000 < tw div 1000 + 2592000"
    and "\<not> expired (floor_seconds (expiresAt d)) (now div 1000)"
  shows "getSession P U svc now sid w' =
           (Some \<lparr>userId = userId d, accessToken = accessToken d, refreshToken = refreshToken d,
                  expiresAt = times_1000 (floor_seconds (expiresAt d))\<rparr>, w')"
proof -
  have "KVService_get P (json_session P) (kvService svc) now w' (''session:'' @ sid) = Some (stored_of d)"
    using assms(3) get_after_createSession[OF assms(1,2,4)] get_after_createUserSession[OF assms(1,2,4)]
      get_after_updateSession[OF assms(1,2,4)] by auto
  from getSession_fresh[OF this] assms(5) show ?thesis
    by (simp add: stored_of_def)
qed

text \<open>
  C6 (as amended). The session store keeps \<open>expiresAt\<close> in whole epoch seconds: a
  record written by \<open>createSession\<close>, \<open>createUserSession\<close> or \<open>updateSession\<close>
  with \<open>expiresAt = t\<close> milliseconds comes back from a later \<open>getSession\<close> (before
  the key's 30 days are over, and while the session is not expired) with
  \<open>expiresAt = (t div 1000) * 1000\<close>: \<open>t\<close> rounded down to the second, less than
  1000 ms below \<open>t\<close>, and equal to \<open>t\<close> exactly when \<open>t\<close> is a multiple of 1000.
\<close>

theorem expiresAt_floored_to_seconds:
  assumes "platform_ok P" and "SessionService_constructor (Some secret) ev = Inr svc"
    and "w' = createSession P svc tw sid d w \<or> w' = createUserSession P svc tw sid uid d w
         \<or> w' = updateSession P svc tw sid d w"
    and "expiresAt d = Num t"
    and "now div 1000 < tw div 1000 + 2592000"
    and "\<not> expired (JNum (t div 1000)) (now div 1000)"
  shows "getSession P U svc now sid w' =
           (Some \<lparr>userId = userId d, accessToken = accessToken d, refreshToken = refreshToken d,
                  expiresAt = Num (t div 1000 * 1000)\<rparr>, w')
         \<and> t div 1000 * 1000 \<le> t \<and> t < t div 1000 * 1000 + 1000
         \<and> (t div 1000 * 1000 = t) = (t mod 1000 = 0)"
proof -
  have "getSession P U svc now sid w' =
           (Some \<lparr>userId = userId d, accessToken = accessToken d, refreshToken = refreshToken d,
                  expiresAt = Num (t div 1000 * 1000)\<rparr>, w')"
    using stored_read_back[OF assms(1) constructed(1)[OF assms(2)] assms(3) assms(5), of U] assms(4,6)
    by (simp add: floor_seconds_def times_1000_def)
  with floor_second_bounds[of t] show ?thesis by simp
qed

theorem expiresAt_floored_to_seconds_witness:
  "getSession toy refusing svc0 1000000 ''sid''
     (updateSession toy svc0 1000000 ''sid''
        \<lparr>userId = Some ''u'', accessToken = ''at'', refreshToken = Some ''rt'', expiresAt = Num 2000000\<rparr> world0)
   = (Some \<lparr>userId = Some ''u'', accessToken = ''at'', refreshToken = Some ''rt'', expiresAt = Num 2000000\<rparr>,
      updateSession toy svc0 1000000 ''sid''
        \<lparr>userId = Some ''u'', accessToken = ''at'', refreshToken = Some ''rt'', expiresAt = Num 2000000\<rparr> world0)"
proof -
  let ?d = "\<lparr>userId = Some ''u'', accessToken = ''at'', refreshToken = Some ''rt'', expiresAt = Num 2000000\<rparr>"
  let ?w = "updateSession toy svc0 1000000 ''sid'' ?d world0"
  have e: "\<not> expired (JNum (2000000 div 1000)) (1000000 div 1000)"
    by (simp add: expired_def)
  have "getSession toy refusing svc0 1000000 ''sid'' ?w =
          (Some \<lparr>userId = userId ?d, accessToken = accessToken ?d, refreshToken = refreshToken ?d,
                 expiresAt = Num (2000000 div 1000 * 1000)\<rparr>, ?w)"
    using expiresAt_floored_to_seconds[of toy "''k1''" env0 svc0 ?w 1000000 "''sid''" ?d
        world0 "''u''" 2000000 1000000 refusing, OF toy_ok svc0_constructed _ _ _ e]
    by simp
  then show ?thesis by simp
qed

text \<open>
  The claim as stated (the value comes back exactly) fails at \<open>t = 2000500\<close>:
  \<open>getSession\<close> returns \<open>2000000\<close>.
\<close>

theorem expiresAt_exact_counterexample:
  "fst (getSession toy refusing svc0 1000000 ''sid''
     (createSession toy svc0 1000000 ''sid''
        \<lparr>userId = Some ''u'', accessToken = ''at'', refreshToken = Some ''rt'', expiresAt = Num 2000500\<rparr> world0))
   = Some \<lparr>userId = Some ''u'', accessToken = ''at'', refreshToken = Some ''rt'', expiresAt = Num 2000000\<rparr>"
proof -
  let ?d = "\<lparr>userId = Some ''u'', accessToken = ''at'', refreshToken = Some ''rt'', expiresAt = Num 2000500\<rparr>"
  let ?w = "createSession toy svc0 1000000 ''sid'' ?d world0"
  have s: "secrets (kvService svc0) = [''k1'']" by (simp add: svc0_def)
  have e: "\<not> expired (floor_seconds (expiresAt ?d)) (1000000 div 1000)"
    by (simp add: expired_def floor_seconds_def)
  have "getSession toy refusing svc0 1000000 ''sid'' ?w =
          (Some \<lparr>userId = userId ?d, accessToken = accessToken ?d, refreshToken = refreshToken ?d,
                 expiresAt = times_1000 (floor_seconds (expiresAt ?d))\<rparr>, ?w)"
    by (rule stored_read_back[OF toy_ok s _ _ e, of _ 1000000 _ world0 "''u''"]) simp_all
  then show ?thesis by (simp add: floor_seconds_def times_1000_def)
qed

section \<open>The session store: refresh on read\<close>

text \<open>The refresh branch of getSession, by what the provider answers.\<close>

lemma getSession_refresh_ok:
  assumes "KVService_get P (json_session P) (kvService svc) now w (''session:'' @ sid) = Some r"
    and "expired (kv_expiresAt r) (now div 1000)"
    and "U (refresh_request (env svc) (kv_refreshToken r)) = Http_ok tr"
  shows "getSession P U svc now sid w =
           (Some (refreshed r tr (now div 1000)),
            updateSession P svc now sid (refreshed r tr (now div 1000))
              (w\<lparr>fetched := fetched w @ [refresh_request (env svc) (kv_refreshToken r)]\<rparr>))"
  using assms by (simp add: getSession_def refreshAccessToken_def Let_def)

lemma getSession_refresh_failed:
  assumes "KVService_get P (json_session P) (kvService svc) now w (''session:'' @ sid) = Some r"
    and "expired (kv_expiresAt r) (now div 1000)"
    and "\<forall>tr. U (refresh_request (env svc) (kv_refreshToken r)) \<noteq> Http_ok tr"
  shows "getSession P U svc now sid w =
           (None, deleteSession sid
              (w\<lparr>fetched := fetched w @ [refresh_request (env svc) (kv_refreshToken r)]\<rparr>))"
  using assms
  by (cases "U (refresh_request (env svc) (kv_refreshToken r))")
     (simp_all add: getSession_def refreshAccessToken_def Let_def)

lemma refreshTokens_ok:
  assumes "KVService_get P (json_session P) (kvService svc) now w (''session:'' @ sid) = Some r"
    and "U (refresh_request (env svc) (kv_refreshToken r)) = Http_ok tr"
  shows "refreshTokens P U svc now sid w =
           (Some (refreshed r tr (now div 1000)),
            updateSession P svc now sid (refreshed r tr (now div 1000))
              (w\<lparr>fetched := fetched w @ [refresh_request (env svc) (kv_refreshToken r)]\<rparr>))"
  using assms by (simp add: refreshTokens_def refreshAccessToken_def Let_def)

lemma persisted_after_update:
  assumes "platform_ok P" and "secrets (kvService svc) = [s]"
  shows "KVService_get P (json_session P) (kvService svc) now (updateSession P svc now sid d w)
           (''session:'' @ sid) = Some (stored_of d)"
  by (rule get_after_updateSession[OF assms]) simp

lemma stored_of_refreshed:
  "stored_of (refreshed r tr now_s) =
     \<lparr>kv_userId = kv_userId r, kv_accessToken = access_token tr,
      kv_refreshToken = or_string (refresh_token tr) (kv_refreshToken r),
      kv_expiresAt = JNum (now_s + or_number (expires_in tr) 3600)\<rparr>"
  by (simp add: stored_of_def refreshed_def floor_seconds_def Let_def)

text \<open>
  C10. When the persisted \<open>expiresAt\<close> of a stored session is \<open>0\<close> (or
  \<^verbatim>\<open>null\<close>, or the property is absent), \<open>getSession\<close> returns the record with its
  stored user and tokens, sends nothing to the provider and leaves the store as it
  was, whatever the time of the call and whatever the provider would answer: the test
  \<^verbatim>\<open>kvRes.expiresAt && ...\<close> takes a falsy expiry as not expired. The returned
  \<open>expiresAt\<close> is \<^verbatim>\<open>kvRes.expiresAt * 1000\<close>: \<open>0\<close> for \<open>0\<close>.
\<close>

theorem falsy_expiry_never_refreshes:
  assumes "KVService_get P (json_session P) (kvService svc) now w (''session:'' @ sid) = Some r"
    and "kv_expiresAt r = JNum 0 \<or> kv_expiresAt r = JNull \<or> kv_expiresAt r = JAbsent"
  shows "getSession P U svc now sid w =
           (Some \<lparr>userId = kv_userId r, accessToken = kv_accessToken r,
                  refreshToken = kv_refreshToken r, expiresAt = times_1000 (kv_expiresAt r)\<rparr>, w)
         \<and> fetched (snd (getSession P U svc now sid w)) = fetched w
         \<and> (kv_expiresAt r = JNum 0 \<longrightarrow> times_1000 (kv_expiresAt r) = Num 0)"
proof -
  have "\<not> expired (kv_expiresAt r) (now div 1000)"
    using assms(2) by (auto simp: expired_def)
  from getSession_fresh[OF assms(1) this, of U] show ?thesis
    by (simp add: times_1000_def)
qed

theorem falsy_expiry_never_refreshes_witness:
  "getSession toy refusing svc0 1700000000000 ''sid''
     (createSession toy svc0 1700000000000 ''sid''
        \<lparr>userId = Some ''u'', accessToken = ''at'', refreshToken = Some ''rt'', expiresAt = Num 0\<rparr> world0)
   = (Some \<lparr>userId = Some ''u'', accessToken = ''at'', refreshToken = Some ''rt'', expiresAt = Num 0\<rparr>,
      createSession toy svc0 1700000000000 ''sid''
        \<lparr>userId = Some ''u'', accessToken = ''at'', refreshToken = Some ''rt'', expiresAt = Num 0\<rparr> world0)"
proof -
  let ?d = "\<lparr>userId = Some ''u'', accessToken = ''at'', refreshToken = Some ''rt'', expiresAt = Num 0\<rparr>"
  let ?w = "createSession toy svc0 1700000000000 ''sid'' ?d world0"
  have s: "secrets (kvService svc0) = [''k1'']" by (simp add: svc0_def)
  have g: "KVService_get toy (json_session toy) (kvService svc0) 1700000000000 ?w (''session:'' @ ''sid'')
             = Some (stored_of ?d)"
    by (rule get_after_createSession[OF toy_ok s]) simp
  have z: "kv_expiresAt (stored_of ?d) = JNum 0"
    by (simp add: stored_of_def floor_seconds_def)
  from falsy_expiry_never_refreshes[OF g, of refusing] z show ?thesis
    by (simp add: stored_of_def times_1000_def)
qed

lemma kv_deleteSession_same: "kv (deleteSession sid w) (''session:'' @ sid) = None"
  by (simp add: deleteSession_def kv_delete_same)

text \<open>
  C2 (as amended). For a stored session whose persisted \<open>expiresAt\<close> is a non-zero
  number of seconds \<open>e\<close> below \<^verbatim>\<open>Math.floor(Date.now() / 1000)\<close>, and a provider that
  returns no negative \<^verbatim>\<open>expires_in\<close>: when the provider answers the refresh request
  with a 2xx, \<open>getSession\<close> returns a record whose \<open>expiresAt\<close> is
  \<open>(now_s + (expires_in || 3600)) * 1000\<close>, strictly later than \<open>e * 1000\<close>, and that
  record is the one now persisted; when the refresh fails (a response that is not
  \<^verbatim>\<open>ok\<close>, or an exception of the \<^verbatim>\<open>fetch\<close>), \<open>getSession\<close> returns not-found and the
  session key is no longer in the store.
\<close>

theorem expired_session_refreshed_or_purged:
  assumes "platform_ok P" and "SessionService_constructor (Some secret) ev = Inr svc"
    and "KVService_get P (json_session P) (kvService svc) now w (''session:'' @ sid) = Some r"
    and "kv_expiresAt r = JNum e" and "e \<noteq> 0" and "e < now div 1000"
    and "\<forall>tr n. U (refresh_request ev (kv_refreshToken r)) = Http_ok tr \<and> expires_in tr = Some n
           \<longrightarrow> 0 \<le> n"
    and "res = getSession P U svc now sid w"
  shows "(\<forall>tr. U (refresh_request ev (kv_refreshToken r)) = Http_ok tr \<longrightarrow>
            map_option expiresAt (fst res)
              = Some (Num ((now div 1000 + or_number (expires_in tr) 3600) * 1000))
            \<and> e * 1000 < (now div 1000 + or_number (expires_in tr) 3600) * 1000
            \<and> KVService_get P (json_session P) (kvService svc) now (snd res) (''session:'' @ sid)
                = map_option stored_of (fst res))
         \<and> ((\<forall>tr. U (refresh_request ev (kv_refreshToken r)) \<noteq> Http_ok tr) \<longrightarrow>
            fst res = None \<and> kv (snd res) (''session:'' @ sid) = None
            \<and> KVService_get P (json_session P) (kvService svc) now (snd res) (''session:'' @ sid)
                = None)"
proof -
  note c = constructed[OF assms(2)]
  have ex: "expired (kv_expiresAt r) (now div 1000)"
    using assms(4,5,6) by (simp add: expired_def)
  have failed: "fst res = None \<and> kv (snd res) (''session:'' @ sid) = None
            \<and> KVService_get P (json_session P) (kvService svc) now (snd res) (''session:'' @ sid) = None"
    if no: "\<forall>tr. U (refresh_request ev (kv_refreshToken r)) \<noteq> Http_ok tr"
  proof -
    have "res = (None, deleteSession sid
              (w\<lparr>fetched := fetched w @ [refresh_request (env svc) (kv_refreshToken r)]\<rparr>))"
      using getSession_refresh_failed[OF assms(3) ex, of U] c(3) assms(8) no by simp
    then show ?thesis
      using kv_deleteSession_same[of sid] get_absent[OF kv_deleteSession_same, of P _ _ now sid]
      by simp
  qed
  have ok: "map_option expiresAt (fst res)
              = Some (Num ((now div 1000 + or_number (expires_in tr) 3600) * 1000))
            \<and> e * 1000 < (now div 1000 + or_number (expires_in tr) 3600) * 1000
            \<and> KVService_get P (json_session P) (kvService svc) now (snd res) (''session:'' @ sid)
                = map_option stored_of (fst res)"
    if yes: "U (refresh_request ev (kv_refreshToken r)) = Http_ok tr" for tr
  proof -
    have res: "res = (Some (refreshed r tr (now div 1000)),
            updateSession P svc now sid (refreshed r tr (now div 1000))
              (w\<lparr>fetched := fetched w @ [refresh_request (env svc) (kv_refreshToken r)]\<rparr>))"
      using getSession_refresh_ok[OF assms(3) ex, of U tr] c(3) assms(8) yes by simp
    have pos: "0 \<le> or_number (expires_in tr) 3600"
      using assms(7) yes by (cases "expires_in tr") (auto simp: or_number_def)
    then have later: "e * 1000 < (now div 1000 + or_number (expires_in tr) 3600) * 1000"
      using assms(6) by simp
    show ?thesis
      using res later persisted_after_update[OF assms(1) c(1)]
      by (simp add: Let_def refreshed_def)
  qed
  from failed ok show ?thesis by blast
qed

theorem expired_session_refreshed_or_purged_witness:
  "map_option expiresAt
     (fst (getSession toy
             (accepting \<lparr>access_token = ''at2'', id_token = [], refresh_token = None, expires_in = Some 60\<rparr>)
             svc0 5000000 ''sid''
             (createSession toy svc0 900000 ''sid''
                \<lparr>userId = Some ''u'', accessToken = ''at'', refreshToken = Some ''rt'', expiresAt = Num 1000000\<rparr>
                world0)))
   = Some (Num 5060000)"
proof -
  let ?d = "\<lparr>userId = Some ''u'', accessToken = ''at'', refreshToken = Some ''rt'', expiresAt = Num 1000000\<rparr>"
  let ?w = "createSession toy svc0 900000 ''sid'' ?d world0"
  let ?tr = "\<lparr>access_token = ''at2'', id_token = [], refresh_token = None, expires_in = Some 60\<rparr>"
  have s: "secrets (kvService svc0) = [''k1'']" by (simp add: svc0_def)
  have g: "KVService_get toy (json_session toy) (kvService svc0) 5000000 ?w (''session:'' @ ''sid'')
             = Some (stored_of ?d)"
    by (rule get_after_createSession[OF toy_ok s]) simp
  have e: "kv_expiresAt (stored_of ?d) = JNum 1000"
    by (simp add: stored_of_def floor_seconds_def)
  have n: "\<forall>tr n. accepting ?tr (refresh_request env0 (kv_refreshToken (stored_of ?d))) = Http_ok tr
             \<and> expires_in tr = Some n \<longrightarrow> 0 \<le> n"
    by (auto simp: accepting_def)
  have h1: "(1000::int) \<noteq> 0" and h2: "(1000::int) < 5000000 div 1000" by simp_all
  from expired_session_refreshed_or_purged[where U = "accepting ?tr",
      OF toy_ok svc0_constructed g e h1 h2 n refl]
  show ?thesis
    by (simp add: accepting_def Let_def or_number_def)
qed

text \<open>
  The claim as stated (every stored \<open>expiresAt\<close> in the past) fails at a stored
  \<open>expiresAt\<close> of \<open>0\<close>: at the time 5000000 ms, with a provider that would accept
  the refresh, \<open>getSession\<close> returns the record with \<open>expiresAt = 0\<close>, neither
  later nor not-found.
\<close>

theorem expired_session_counterexample:
  "fst (getSession toy
          (accepting \<lparr>access_token = ''at2'', id_token = [], refresh_token = None, expires_in = Some 60\<rparr>)
          svc0 5000000 ''sid''
          (updateSession toy svc0 900000 ''sid''
             \<lparr>userId = Some ''u'', accessToken = ''at'', refreshToken = Some ''rt'', expiresAt = Num 0\<rparr>
             world0))
   = Some \<lparr>userId = Some ''u'', accessToken = ''at'', refreshToken = Some ''rt'', expiresAt = Num 0\<rparr>"
proof -
  let ?d = "\<lparr>userId = Some ''u'', accessToken = ''at'', refreshToken = Some ''rt'', expiresAt = Num 0\<rparr>"
  let ?w = "updateSession toy svc0 900000 ''sid'' ?d world0"
  have s: "secrets (kvService svc0) = [''k1'']" by (simp add: svc0_def)
  have g: "KVService_get toy (json_session toy) (kvService svc0) 5000000 ?w (''session:'' @ ''sid'')
             = Some (stored_of ?d)"
    by (rule get_after_updateSession[OF toy_ok s]) simp
  have e: "\<not> expired (kv_expiresAt (stored_of ?d)) (5000000 div 1000)"
    by (simp add: stored_of_def floor_seconds_def expired_def)
  from getSession_fresh[OF g e] show ?thesis
    by (simp add: stored_of_def floor_seconds_def times_1000_def)
qed

text \<open>
  C4 (as amended). On a 2xx answer to the refresh request, both the refresh inside
  \<open>getSession\<close> (taken when the stored session is expired) and \<open>refreshTokens\<close>
  persist, and return, a record with the stored user, the provider's access token, the
  provider's \<^verbatim>\<open>refresh_token\<close> when it is a non-empty string and the stored refresh
  token when it is omitted or empty, and \<open>expiresAt = now_s + expires_in\<close> seconds
  when \<^verbatim>\<open>expires_in\<close> is a non-zero number, \<open>now_s + 3600\<close> when it is omitted or
  \<open>0\<close>.
\<close>

theorem refresh_persists_tokens:
  assumes "platform_ok P" and "SessionService_constructor (Some secret) ev = Inr svc"
    and "KVService_get P (json_session P) (kvService svc) now w (''session:'' @ sid) = Some r"
    and "U (refresh_request ev (kv_refreshToken r)) = Http_ok tr"
    and "res = getSession P U svc now sid w \<and> expired (kv_expiresAt r) (now div 1000)
         \<or> res = refreshTokens P U svc now sid w"
  shows "\<exists>p. KVService_get P (json_session P) (kvService svc) now (snd res) (''session:'' @ sid) = Some p
           \<and> map_option stored_of (fst res) = Some p
           \<and> kv_userId p = kv_userId r \<and> kv_accessToken p = access_token tr
           \<and> (\<forall>t. refresh_token tr = Some t \<and> t \<noteq> [] \<longrightarrow> kv_refreshToken p = Some t)
           \<and> (refresh_token tr = None \<or> refresh_token tr = Some []
                 \<longrightarrow> kv_refreshToken p = kv_refreshToken r)
           \<and> (\<forall>n. expires_in tr = Some n \<and> n \<noteq> 0 \<longrightarrow> kv_expiresAt p = JNum (now div 1000 + n))
           \<and> (expires_in tr = None \<or> expires_in tr = Some 0
                 \<longrightarrow> kv_expiresAt p = JNum (now div 1000 + 3600))"
proof -
  note c = constructed[OF assms(2)]
  let ?d = "refreshed r tr (now div 1000)"
  have res: "res = (Some ?d, updateSession P svc now sid ?d
              (w\<lparr>fetched := fetched w @ [refresh_request (env svc) (kv_refreshToken r)]\<rparr>))"
    using assms(5) getSession_refresh_ok[OF assms(3), of U tr] refreshTokens_ok[OF assms(3), of U tr]
      assms(4) c(3) by auto
  have "KVService_get P (json_session P) (kvService svc) now (snd res) (''session:'' @ sid)
          = Some (stored_of ?d)"
    using res persisted_after_update[OF assms(1) c(1)] by simp
  moreover have "map_option stored_of (fst res) = Some (stored_of ?d)"
    using res by simp
  ultimately show ?thesis
    by (auto simp: stored_of_refreshed or_string_def or_number_def truthy_def)
qed

theorem refresh_persists_tokens_witness:
  "KVService_get toy (json_session toy) (kvService svc0) 5000000
     (snd (refreshTokens toy
             (accepting \<lparr>access_token = ''at2'', id_token = [], refresh_token = None, expires_in = Some 60\<rparr>)
             svc0 5000000 ''sid''
             (createSession toy svc0 900000 ''sid''
                \<lparr>userId = Some ''u'', accessToken = ''at'', refreshToken = Some ''rt'', expiresAt = Num 1000000\<rparr>
                world0)))
     ''session:sid''
   = Some \<lparr>kv_userId = Some ''u'', kv_accessToken = ''at2'', kv_refreshToken = Some ''rt'',
            kv_expiresAt = JNum 5060\<rparr>"
proof -
  let ?d = "\<lparr>userId = Some ''u'', accessToken = ''at'', refreshToken = Some ''rt'', expiresAt = Num 1000000\<rparr>"
  let ?w = "createSession toy svc0 900000 ''sid'' ?d world0"
  let ?tr = "\<lparr>access_token = ''at2'', id_token = [], refresh_token = None, expires_in = Some 60\<rparr>"
  have s: "secrets (kvService svc0) = [''k1'']" by (simp add: svc0_def)
  have g: "KVService_get toy (json_session toy) (kvService svc0) 5000000 ?w (''session:'' @ ''sid'')
             = Some (stored_of ?d)"
    by (rule get_after_createSession[OF toy_ok s]) simp
  have u: "accepting ?tr (refresh_request env0 (kv_refreshToken (stored_of ?d))) = Http_ok ?tr"
    by (simp add: accepting_def)
  have r: "refreshTokens toy (accepting ?tr) svc0 5000000 ''sid'' ?w
             = getSession toy (accepting ?tr) svc0 5000000 ''sid'' ?w
               \<and> expired (kv_expiresAt (stored_of ?d)) (5000000 div 1000)
           \<or> refreshTokens toy (accepting ?tr) svc0 5000000 ''sid'' ?w
             = refreshTokens toy (accepting ?tr) svc0 5000000 ''sid'' ?w"
    by simp
  from refresh_persists_tokens[where U = "accepting ?tr", OF toy_ok svc0_constructed g u r]
  obtain p where p: "KVService_get toy (json_session toy) (kvService svc0) 5000000
        (snd (refreshTokens toy (accepting ?tr) svc0 5000000 ''sid'' ?w)) (''session:'' @ ''sid'') = Some p"
    and "kv_userId p = kv_userId (stored_of ?d)" and "kv_accessToken p = access_token ?tr"
    and "kv_refreshToken p = kv_refreshToken (stored_of ?d)"
    and "kv_expiresAt p = JNum (5000000 div 1000 + 60)"
    by auto
  then have "p = \<lparr>kv_userId = Some ''u'', kv_accessToken = ''at2'', kv_refreshToken = Some ''rt'',
            kv_expiresAt = JNum 5060\<rparr>"
    by (cases p) (simp add: stored_of_def)
  with p show ?thesis by simp
qed

text \<open>
  The claim as stated (the new expiry is the current time plus \<^verbatim>\<open>expires_in\<close>, 3600
  only when it is absent) fails at \<^verbatim>\<open>expires_in: 0\<close>: at \<open>now_s = 5000\<close> the
  persisted \<open>expiresAt\<close> is \<open>8600\<close>, not \<open>5000\<close>.
\<close>

theorem refresh_zero_lifetime_counterexample:
  "KVService_get toy (json_session toy) (kvService svc0) 5000000
     (snd (refreshTokens toy
             (accepting \<lparr>access_token = ''at2'', id_token = [], refresh_token = Some ''rt2'',
                          expires_in = Some 0\<rparr>)
             svc0 5000000 ''sid''
             (createSession toy svc0 900000 ''sid''
                \<lparr>userId = Some ''u'', accessToken = ''at'', refreshToken = Some ''rt'', expiresAt = Num 1000000\<rparr>
                world0)))
     ''session:sid''
   = Some \<lparr>kv_userId = Some ''u'', kv_accessToken = ''at2'', kv_refreshToken = Some ''rt2'',
            kv_expiresAt = JNum 8600\<rparr>"
proof -
  let ?d = "\<lparr>userId = Some ''u'', accessToken = ''at'', refreshToken = Some ''rt'', expiresAt = Num 1000000\<rparr>"
  let ?w = "createSession toy svc0 900000 ''sid'' ?d world0"
  let ?tr = "\<lparr>access_token = ''at2'', id_token = [], refresh_token = Some ''rt2'', expires_in = Some 0\<rparr>"
  have s: "secrets (kvService svc0) = [''k1'']" by (simp add: svc0_def)
  have g: "KVService_get toy (json_session toy) (kvService svc0) 5000000 ?w (''session:'' @ ''sid'')
             = Some (stored_of ?d)"
    by (rule get_after_createSession[OF toy_ok s]) simp
  have u: "accepting ?tr (refresh_request (env svc0) (kv_refreshToken (stored_of ?d))) = Http_ok ?tr"
    by (simp add: accepting_def)
  let ?n = "refreshed (stored_of ?d) ?tr (5000000 div 1000)"
  have v: "stored_of ?n = \<lparr>kv_userId = Some ''u'', kv_accessToken = ''at2'', kv_refreshToken = Some ''rt2'',
            kv_expiresAt = JNum 8600\<rparr>"
    by (simp add: refreshed_def stored_of_def floor_seconds_def Let_def or_string_def or_number_def
        truthy_def)
  have r: "snd (refreshTokens toy (accepting ?tr) svc0 5000000 ''sid'' ?w) =
             updateSession toy svc0 5000000 ''sid'' ?n
               (?w\<lparr>fetched := fetched ?w @ [refresh_request (env svc0) (kv_refreshToken (stored_of ?d))]\<rparr>)"
    using refreshTokens_ok[where U = "accepting ?tr", OF g u] by simp
  have "KVService_get toy (json_session toy) (kvService svc0) 5000000
          (snd (refreshTokens toy (accepting ?tr) svc0 5000000 ''sid'' ?w)) (''session:'' @ ''sid'')
        = Some (stored_of ?n)"
    unfolding r by (rule persisted_after_update[OF toy_ok s])
  then show ?thesis unfolding v by simp
qed

section \<open>The session store: one current session per user\<close>











section \<open>The callback: single-use state\<close>

lemma kv_exchange: "kv (snd (exchangeCodeForToken U ev c v w)) = kv w"
  by (simp add: exchangeCodeForToken_def Let_def split: http_response.splits)

lemma constructor_optional:
  "\<exists>k. KVService_constructor secret (Some False) = Inr k"
  by (simp add: KVService_constructor_def Let_def)

text \<open>The callback up to and including the lookup of the state entry.\<close>

lemma callback_found:
  assumes "\<not> truthy (q_error q)" and "truthy (q_code q)" and "q_state q = Some S" and "S \<noteq> []"
    and "SESSIONS_KV ev" and "KVService_constructor (secret_of_env ev) (Some False) = Inr k"
    and "KVService_get P (json_auth_state P) k now w (''auth_state:'' @ S) = Some a"
  shows "processAuthCallback P U ev now q w =
           (if as_codeVerifier a = [] then
              (Inl MissingCodeVerifier, KVService_delete (''auth_state:'' @ S) w)
            else exchangeCodeForToken U ev (String_of (q_code q)) (as_codeVerifier a)
                   (KVService_delete (''auth_state:'' @ S) w))"
  using assms by (simp add: processAuthCallback_def truthy_def String_of_def Let_def)

lemma callback_not_found:
  assumes "\<not> truthy (q_error q)" and "truthy (q_code q)" and "q_state q = Some S" and "S \<noteq> []"
    and "SESSIONS_KV ev" and "KVService_constructor (secret_of_env ev) (Some False) = Inr k"
    and "KVService_get P (json_auth_state P) k now w (''auth_state:'' @ S) = None"
  shows "processAuthCallback P U ev now q w = (Inl InvalidOrExpiredOAuthState, w)"
  using assms by (simp add: processAuthCallback_def truthy_def String_of_def Let_def)

lemma callback_no_state:
  assumes "\<not> truthy (q_error q)" and "truthy (q_code q)" and "\<not> truthy (q_state q)"
  shows "processAuthCallback P U ev now q w = (Inl NoStateProvided, w)"
  using assms by (simp add: processAuthCallback_def)

lemma callback_found_deletes:
  assumes "\<not> truthy (q_error q)" and "truthy (q_code q)" and "q_state q = Some S" and "S \<noteq> []"
    and "SESSIONS_KV ev" and "KVService_constructor (secret_of_env ev) (Some False) = Inr k"
    and "KVService_get P (json_auth_state P) k now w (''auth_state:'' @ S) = Some a"
  shows "kv (snd (processAuthCallback P U ev now q w)) (''auth_state:'' @ S) = None"
  using kv_delete_same[of "''auth_state:'' @ S" w]
  by (simp add: callback_found[OF assms] kv_exchange)

text \<open>
  C3. A PKCE state token is single-use: when a callback presenting the state \<open>S\<close>
  finds its stored entry, the entry is deleted right after the lookup, before the code
  is exchanged, so it is gone whether the rest of that callback succeeds or fails
  (whatever the provider answers, and also when the stored verifier is empty); a
  second callback presenting the same state, at any time, fails with "Invalid or
  expired OAuth state".
\<close>

theorem state_is_single_use:
  assumes "SESSIONS_KV ev" and "KVService_constructor (secret_of_env ev) (Some False) = Inr k"
    and "S \<noteq> []"
    and "\<not> truthy (q_error q1)" and "truthy (q_code q1)" and "q_state q1 = Some S"
    and "KVService_get P (json_auth_state P) k now1 w (''auth_state:'' @ S) = Some a"
    and "w' = snd (processAuthCallback P U1 ev now1 q1 w)"
    and "\<not> truthy (q_error q2)" and "truthy (q_code q2)" and "q_state q2 = Some S"
  shows "kv w' (''auth_state:'' @ S) = None
         \<and> processAuthCallback P U2 ev now2 q2 w' = (Inl InvalidOrExpiredOAuthState, w')"
proof -
  have gone: "kv w' (''auth_state:'' @ S) = None"
    unfolding assms(8) by (rule callback_found_deletes[OF assms(4,5,6,3,1,2,7)])
  have "KVService_get P (json_auth_state P) k now2 w' (''auth_state:'' @ S) = None"
    by (rule get_absent[OF gone])
  from callback_not_found[OF assms(9,10,11,3,1,2) this] gone show ?thesis by simp
qed

lemma toy_btoa_plain: "toy_btoa (replicate n CHR ''r'') = replicate n CHR ''r''"
  by (induction n) (simp_all add: toy_btoa_Cons, simp add: toy_btoa_def)

lemma toy_random_string:
  "generateRandomString toy n w = (replicate n CHR ''r'', w\<lparr>rng := rng w + n\<rparr>)"
  by (simp add: generateRandomString_def getRandomValues_def base64UrlEncode_def toy_def
      map_replicate_const toy_btoa_plain replace_all_def strip_padding_def)

lemma toy_initiateAuth:
  "snd (initiateAuth toy env0 1000 world0) =
     KVService_put toy toy_json_auth_state \<lparr>secrets = [''k1''], requireSecret = False\<rparr>
       (''auth_state:'' @ replicate 16 CHR ''r'') \<lparr>as_codeVerifier = replicate 32 CHR ''r''\<rparr>
       (Some 601) (world0\<lparr>rng := 48\<rparr>)"
  by (simp add: initiateAuth_def generateAuthUrl_def generatePKCE_def toy_random_string Let_def
      env0_def world0_def secret_of_env_def KVService_constructor_def)
     (simp add: toy_def)

theorem state_is_single_use_witness:
  "fst (processAuthCallback toy refusing env0 3000
          \<lparr>q_code = Some ''c'', q_error = None, q_error_description = None,
             q_state = Some (replicate 16 CHR ''r'')\<rparr>
          (snd (processAuthCallback toy refusing env0 2000
                  \<lparr>q_code = Some ''c'', q_error = None, q_error_description = None,
                     q_state = Some (replicate 16 CHR ''r'')\<rparr>
                  (snd (initiateAuth toy env0 1000 world0)))))
   = Inl InvalidOrExpiredOAuthState"
proof -
  let ?q = "\<lparr>q_code = Some ''c'', q_error = None, q_error_description = None,
              q_state = Some (replicate 16 CHR ''r'')\<rparr>"
  let ?k = "\<lparr>secrets = [''k1''], requireSecret = False\<rparr>"
  let ?w = "snd (initiateAuth toy env0 1000 world0)"
  have kv: "SESSIONS_KV env0" by (simp add: env0_def)
  have k: "KVService_constructor (secret_of_env env0) (Some False) = Inr ?k"
    by (simp add: KVService_constructor_def secret_of_env_def env0_def)
  have S: "replicate 16 CHR ''r'' \<noteq> []" by simp
  have q: "\<not> truthy (q_error ?q)" "truthy (q_code ?q)" "q_state ?q = Some (replicate 16 CHR ''r'')"
    by (simp_all add: truthy_def)
  have "KVService_get toy toy_json_auth_state ?k 2000 ?w (''auth_state:'' @ replicate 16 CHR ''r'')
          = Some \<lparr>as_codeVerifier = replicate 32 CHR ''r''\<rparr>"
    unfolding toy_initiateAuth
    by (rule own_get_put[OF toy_crypto_ok toy_auth_ok]) (simp_all add: unexpired_def)
  then have g: "KVService_get toy (json_auth_state toy) ?k 2000 ?w (''auth_state:'' @ replicate 16 CHR ''r'')
          = Some \<lparr>as_codeVerifier = replicate 32 CHR ''r''\<rparr>"
    by (simp add: toy_def)
  from state_is_single_use[where ?U1.0 = refusing and ?U2.0 = refusing and ?now2.0 = 3000,
      OF kv k S q g refl q]
  show ?thesis by simp
qed

section \<open>The callback route and login initiation\<close>

lemma route_on_callback_error:
  assumes "\<not> truthy (q_error q)" and "truthy (q_code q)"
    and "processAuthCallback P U ev now q w = (Inl err, w1)"
  shows "callback_route P U ev now q w = (Text (''Error during authentication: '' @ message err) 500, w1)"
  using assms by (simp add: callback_route_def handleOAuthCallback_def)

text \<open>
  C7 (as amended). For every callback request with a code and no \<^verbatim>\<open>error\<close>
  parameter, whose \<^verbatim>\<open>state\<close> parameter is missing or empty, or whose state has no
  readable stored entry (absent or expired), the route answers with the error page
  \<^verbatim>\<open>c.text('Error during authentication: ' + message, 500)\<close>, the message being "No
  state provided" or "Invalid or expired OAuth state"; it does not redirect, and the
  store is left as it was.
\<close>

theorem state_errors_are_error_pages:
  assumes "\<not> truthy (q_error q)" and "truthy (q_code q)"
    and "KVService_constructor (secret_of_env ev) (Some False) = Inr k"
    and "\<not> truthy (q_state q)
         \<or> (\<exists>S. q_state q = Some S \<and> S \<noteq> [] \<and> SESSIONS_KV ev
                \<and> KVService_get P (json_auth_state P) k now w (''auth_state:'' @ S) = None)"
  shows "callback_route P U ev now q w =
           (Text (''Error during authentication: '' @
                  (if truthy (q_state q) then ''Invalid or expired OAuth state''
                   else ''No state provided'')) 500, w)"
proof (cases "truthy (q_state q)")
  case False
  from route_on_callback_error[OF assms(1,2) callback_no_state[OF assms(1,2) False]] False
  show ?thesis by simp
next
  case True
  with assms(4) obtain S where S: "q_state q = Some S" "S \<noteq> []" "SESSIONS_KV ev"
    "KVService_get P (json_auth_state P) k now w (''auth_state:'' @ S) = None"
    by auto
  from route_on_callback_error[OF assms(1,2) callback_not_found[OF assms(1,2) S(1,2,3) assms(3) S(4)]] True
  show ?thesis by simp
qed

theorem state_errors_are_error_pages_witness:
  "callback_route toy refusing env0 1000
     \<lparr>q_code = Some ''c'', q_error = None, q_error_description = None, q_state = Some ''stale''\<rparr>
     world0
   = (Text ''Error during authentication: Invalid or expired OAuth state'' 500, world0)"
proof -
  let ?q = "\<lparr>q_code = Some ''c'', q_error = None, q_error_description = None, q_state = Some ''stale''\<rparr>"
  let ?k = "\<lparr>secrets = [''k1''], requireSecret = False\<rparr>"
  have k: "KVService_constructor (secret_of_env env0) (Some False) = Inr ?k"
    by (simp add: KVService_constructor_def secret_of_env_def env0_def)
  have q: "\<not> truthy (q_error ?q)" "truthy (q_code ?q)"
    by (simp_all add: truthy_def)
  have "KVService_get toy (json_auth_state toy) ?k 1000 world0 (''auth_state:'' @ ''stale'') = None"
    by (rule get_absent) (simp add: world0_def)
  then have h: "\<not> truthy (q_state ?q)
         \<or> (\<exists>S. q_state ?q = Some S \<and> S \<noteq> [] \<and> SESSIONS_KV env0
                \<and> KVService_get toy (json_auth_state toy) ?k 1000 world0 (''auth_state:'' @ S) = None)"
    by (simp add: env0_def)
  from state_errors_are_error_pages[where U = refusing, OF q k h]
  show ?thesis by (simp add: truthy_def)
qed

text \<open>
  The claim as stated (a missing state redirects to the login flow) fails at a
  callback with a code and no state: the answer is a 500 text response.
\<close>

theorem missing_state_counterexample:
  "callback_route toy refusing env0 1000
     \<lparr>q_code = Some ''c'', q_error = None, q_error_description = None, q_state = None\<rparr> world0
   = (Text ''Error during authentication: No state provided'' 500, world0)"
  by (simp add: callback_route_def handleOAuthCallback_def processAuthCallback_def truthy_def)

section \<open>Login initiation: verifier, state and the authorization URL\<close>

text \<open>
  The encoder of the code (\<open>base64UrlEncode\<close>: two \<^verbatim>\<open>replace\<close> calls and a strip of
  trailing \<^verbatim>\<open>=\<close>) against the encoding as RFC 4648 defines it, on a standard
  \<^verbatim>\<open>btoa\<close>.
\<close>

lemma pad_count: "(n + k) mod 4 = 0 \<Longrightarrow> k < 3 \<Longrightarrow> (4 - n mod 4) mod 4 = (k::nat)"
proof -
  assume a: "(n + k) mod 4 = 0" and k: "k < 3"
  define r where "r = n mod 4"
  have r: "r < 4" by (simp add: r_def)
  have "(r + k) mod 4 = 0" using a by (simp add: r_def mod_add_left_eq)
  then have "4 dvd r + k" by (simp add: dvd_eq_mod_eq_0)
  then obtain q where q: "r + k = 4 * q" by (auto simp: dvd_def)
  with r k have "q = 0 \<or> q = 1" by linarith
  then show ?thesis
  proof
    assume "q = 0" with q have "r = 0" "k = 0" by simp_all
    then show ?thesis by (simp add: r_def[symmetric])
  next
    assume "q = 1" with q have "4 - r = k" by simp
    with k show ?thesis by (simp add: r_def[symmetric])
  qed
qed

lemma filter_replicate_same: "filter (\<lambda>x. x \<noteq> c) (replicate k c) = []"
  by (induction k) simp_all

lemma filter_body: "c \<notin> set b \<Longrightarrow> filter (\<lambda>x. x \<noteq> c) (b @ replicate k c) = b"
  by (induction b) (auto simp: filter_replicate_same)

lemma dropWhile_all_kept: "\<forall>x \<in> set xs. \<not> P x \<Longrightarrow> dropWhile P xs = xs"
  by (cases xs) auto

lemma dropWhile_replicate_prefix: "P x \<Longrightarrow> dropWhile P (replicate k x @ ys) = dropWhile P ys"
  by (induction k) auto

lemma strip_body:
  assumes "c \<notin> set b"
  shows "rev (dropWhile (\<lambda>x. x = c) (rev (b @ replicate k c))) = b"
proof -
  have "dropWhile (\<lambda>x. x = c) (rev b) = rev b"
    by (rule dropWhile_all_kept) (use assms in auto)
  then show ?thesis
    by (simp add: dropWhile_replicate_prefix)
qed

lemma encoder_meets_spec:
  assumes "base64_std P"
  shows "base64UrlEncode P x = base64url_spec P x"
proof -
  from assms obtain body k where b: "btoa P x = body @ replicate k CHR ''=''"
    and n: "CHR ''='' \<notin> set body"
    unfolding base64_std_def by blast
  let ?tr = "\<lambda>c. if c = CHR ''+'' then CHR ''-'' else if c = CHR ''/'' then CHR ''_'' else c"
  have t: "replace_all CHR ''/'' CHR ''_'' (replace_all CHR ''+'' CHR ''-'' s) = map ?tr s" for s
    by (simp add: replace_all_def)
  have m: "CHR ''='' \<notin> set (map ?tr body)" using n by auto
  have e: "map ?tr (body @ replicate k CHR ''='') = map ?tr body @ replicate k CHR ''=''"
    by simp
  have "base64UrlEncode P x = map ?tr body"
    unfolding base64UrlEncode_def t b e strip_padding_def by (rule strip_body[OF m])
  moreover have "base64url_spec P x = map ?tr body"
    unfolding base64url_spec_def b e by (rule filter_body[OF m])
  ultimately show ?thesis by simp
qed

lemma spec_decodes:
  assumes "base64_std P"
  shows "base64url_spec_decode P (base64url_spec P x) = Some x"
proof -
  from assms obtain body k where b: "btoa P x = body @ replicate k CHR ''=''"
    and n: "CHR ''='' \<notin> set body" and k: "k < 3"
    unfolding base64_std_def by blast
  from assms have len: "length (btoa P x) mod 4 = 0"
    and al: "CHR ''-'' \<notin> set (btoa P x)" "CHR ''_'' \<notin> set (btoa P x)"
    and rt: "atob P (btoa P x) = Some x"
    unfolding base64_std_def by blast+
  let ?tr = "\<lambda>c. if c = CHR ''+'' then CHR ''-'' else if c = CHR ''/'' then CHR ''_'' else c"
  let ?un = "\<lambda>c. if c = CHR ''-'' then CHR ''+'' else if c = CHR ''_'' then CHR ''/'' else c"
  have m: "CHR ''='' \<notin> set (map ?tr body)" using n by auto
  have e: "map ?tr (body @ replicate k CHR ''='') = map ?tr body @ replicate k CHR ''=''"
    by simp
  have s: "base64url_spec P x = map ?tr body"
    unfolding base64url_spec_def b e by (rule filter_body[OF m])
  have "CHR ''-'' \<notin> set body" "CHR ''_'' \<notin> set body" using al b by auto
  then have undo: "map ?un (map ?tr body) = body"
    by (induction body) auto
  have "(length body + k) mod 4 = 0" using len b by simp
  from pad_count[OF this k] have p: "(4 - length body mod 4) mod 4 = k" .
  have "base64url_spec_decode P (map ?tr body) = atob P (body @ replicate k CHR ''='')"
    by (simp only: base64url_spec_decode_def undo length_map p)
  then show ?thesis
    unfolding s using rt b by simp
qed

lemma spec_alphabet:
  "CHR ''='' \<notin> set (base64url_spec P x) \<and> CHR ''+'' \<notin> set (base64url_spec P x)
   \<and> CHR ''/'' \<notin> set (base64url_spec P x)"
  by (auto simp: base64url_spec_def)

text \<open>The base64 of the small platform \<open>toy64\<close> is standard in the sense of \<open>base64_std\<close>.\<close>

lemma toy_unblocks_block:
  "toy_unblocks (toy_block c @ r) = map_option ((#) c) (toy_unblocks r)"
  by (simp add: toy_block_def)

lemma toy_unblocks_blocks: "toy_unblocks (concat (map toy_block x)) = Some x"
  by (induction x) (simp_all add: toy_unblocks_block)

lemma toy_block_length: "length (toy_block c) = 4"
  by (simp add: toy_block_def)

lemma toy_blocks_length: "length (concat (map toy_block x)) = 4 * length x"
  by (induction x) (simp_all add: toy_block_length)

lemma toy_block_alphabet:
  "CHR ''='' \<notin> set (toy_block c) \<and> CHR ''-'' \<notin> set (toy_block c) \<and> CHR ''_'' \<notin> set (toy_block c)"
  by (simp add: toy_block_def)

lemma toy_blocks_alphabet:
  "CHR ''='' \<notin> set (concat (map toy_block x)) \<and> CHR ''-'' \<notin> set (concat (map toy_block x))
   \<and> CHR ''_'' \<notin> set (concat (map toy_block x))"
  using toy_block_alphabet by (induction x) simp_all

lemma toy64_std: "base64_std toy64"
proof -
  have a: "toy_atob64 (toy_btoa64 x) = Some x" for x
    by (simp add: toy_atob64_def toy_btoa64_def toy_unblocks_blocks)
  have b: "CHR ''-'' \<notin> set (toy_btoa64 x) \<and> CHR ''_'' \<notin> set (toy_btoa64 x)" for x
    using toy_blocks_alphabet[of x] by (simp add: toy_btoa64_def)
  have c: "length (toy_btoa64 x) mod 4 = 0" for x
    by (simp add: toy_btoa64_def toy_blocks_length)
  have d: "\<exists>body k. toy_btoa64 x = body @ replicate k CHR ''=''
             \<and> CHR ''='' \<notin> set body \<and> k < 3" for x
  proof (intro exI conjI)
    show "toy_btoa64 x = (concat (map toy_block x) @ ''+/'') @ replicate 2 CHR ''=''"
      by (simp add: toy_btoa64_def numeral_2_eq_2)
    show "CHR ''='' \<notin> set (concat (map toy_block x) @ ''+/'')"
      using toy_blocks_alphabet[of x] by simp
    show "(2::nat) < 3" by simp
  qed
  have "btoa toy64 = toy_btoa64" "atob toy64 = toy_atob64" by (simp_all add: toy64_def)
  then show ?thesis
    unfolding base64_std_def using a b c d by simp
qed

lemma scope_value:
  "join '' '' SCOPES =
     ''openid ''
     @ ''offline_access ''
     @ ''profile ''
     @ ''https://api.banno.com/consumer/auth/accounts.readonly ''
     @ ''https://api.banno.com/consumer/auth/user.readonly ''
     @ ''https://api.banno.com/consumer/auth/user.profile.readonly ''
     @ ''https://api.banno.com/consumer/claim/devices.readonly ''
     @ ''https://api.banno.com/consumer/claim/netteller_id.readonly ''
     @ ''https://api.banno.com/consumer/claim/phone_numbers.readonly ''
     @ ''https://api.banno.com/consumer/claim/user_type.readonly ''
     @ ''https://api.banno.com/consumer/auth/documents.readonly ''
     @ ''https://api.banno.com/consumer/auth/transactions.detail.readonly ''
     @ ''https://api.banno.com/consumer/claim/customer_identifier.readonly ''
     @ ''https://api.banno.com/consumer/claim/loans.readonly ''
     @ ''https://api.banno.com/consumer/claim/shares.readonly''"
  by (simp add: SCOPES_def)

lemma toy64_entropy: "map (entropy toy64) xs = replicate (length xs) CHR ''r''"
  by (simp add: toy64_def toy_def map_replicate_const)


text \<open>
  C9. For every invocation of login initiation, on a platform whose \<^verbatim>\<open>btoa\<close> is
  standard base64 (\<open>base64_std\<close>): the returned \<open>codeVerifier\<close> is the unpadded
  base64url encoding (RFC 4648, section 5, \<open>base64url_spec\<close>) of the next 32 bytes of
  the random source, so it decodes back to exactly those 32 bytes and contains none of
  \<^verbatim>\<open>=\<close>, \<^verbatim>\<open>+\<close>, \<^verbatim>\<open>/\<close>; the returned \<open>state\<close> is the encoding
  of the following 16 bytes and decodes back to them; 48 bytes of the source are used;
  and the returned URL is the provider's authorize endpoint followed by exactly the
  seven query parameters \<^verbatim>\<open>client_id\<close>, \<^verbatim>\<open>response_type=code\<close>, \<^verbatim>\<open>scope\<close> with
  the fifteen fixed scopes joined by single spaces, \<^verbatim>\<open>redirect_uri\<close>,
  \<^verbatim>\<open>code_challenge\<close> equal to the base64url encoding of the SHA-256 digest of the
  verifier's text (which decodes back to that digest), \<^verbatim>\<open>code_challenge_method=S256\<close>
  and \<^verbatim>\<open>state\<close>, in this order.
\<close>

theorem auth_initiation_parameters:
  assumes "base64_std P"
    and "res = generateAuthUrl P ev w"
    and "seed = map (entropy P) [rng w ..< rng w + 32]"
    and "nonce = map (entropy P) [rng w + 32 ..< rng w + 48]"
  shows "length seed = 32 \<and> length nonce = 16 \<and> rng (snd res) = rng w + 48
   \<and> codeVerifier (fst res) = base64url_spec P seed
   \<and> base64url_spec_decode P (codeVerifier (fst res)) = Some seed
   \<and> CHR ''='' \<notin> set (codeVerifier (fst res))
   \<and> CHR ''+'' \<notin> set (codeVerifier (fst res))
   \<and> CHR ''/'' \<notin> set (codeVerifier (fst res))
   \<and> state (fst res) = base64url_spec P nonce
   \<and> base64url_spec_decode P (state (fst res)) = Some nonce
   \<and> base64url_spec_decode P
         (base64url_spec P (sha256 P (text_encode P (codeVerifier (fst res)))))
       = Some (sha256 P (text_encode P (codeVerifier (fst res))))
   \<and> url (fst res)
     = ENV_URI ev @ ''/a/consumer/api/v0/oidc/auth?'' @
       url_search_params P
         [(''client_id'', CLIENT_ID ev),
          (''response_type'', ''code''),
          (''scope'',
             ''openid ''
             @ ''offline_access ''
             @ ''profile ''
             @ ''https://api.banno.com/consumer/auth/accounts.readonly ''
             @ ''https://api.banno.com/consumer/auth/user.readonly ''
             @ ''https://api.banno.com/consumer/auth/user.profile.readonly ''
             @ ''https://api.banno.com/consumer/claim/devices.readonly ''
             @ ''https://api.banno.com/consumer/claim/netteller_id.readonly ''
             @ ''https://api.banno.com/consumer/claim/phone_numbers.readonly ''
             @ ''https://api.banno.com/consumer/claim/user_type.readonly ''
             @ ''https://api.banno.com/consumer/auth/documents.readonly ''
             @ ''https://api.banno.com/consumer/auth/transactions.detail.readonly ''
             @ ''https://api.banno.com/consumer/claim/customer_identifier.readonly ''
             @ ''https://api.banno.com/consumer/claim/loans.readonly ''
             @ ''https://api.banno.com/consumer/claim/shares.readonly''),
          (''redirect_uri'', REDIRECT_URI ev),
          (''code_challenge'',
             base64url_spec P (sha256 P (text_encode P (codeVerifier (fst res))))),
          (''code_challenge_method'', ''S256''),
          (''state'', state (fst res))]"
proof -
  have g: "res =
     (\<lparr>url = ENV_URI ev @ ''/a/consumer/api/v0/oidc/auth?'' @
              url_search_params P
                [(''client_id'', CLIENT_ID ev),
                 (''response_type'', ''code''),
                 (''scope'', join '' '' SCOPES),
                 (''redirect_uri'', REDIRECT_URI ev),
                 (''code_challenge'',
                    base64UrlEncode P (sha256 P (text_encode P (base64UrlEncode P seed)))),
                 (''code_challenge_method'', ''S256''),
                 (''state'', base64UrlEncode P nonce)],
        codeVerifier = base64UrlEncode P seed,
        state = base64UrlEncode P nonce\<rparr>,
      w\<lparr>rng := rng w + 48\<rparr>)"
    unfolding assms(2,3,4)
    by (simp add: generateAuthUrl_def generatePKCE_def generateRandomString_def
        getRandomValues_def Let_def add.commute)
  have l: "length seed = 32 \<and> length nonce = 16"
    unfolding assms(3,4) by simp
  note e = encoder_meets_spec[OF assms(1)]
  note d = spec_decodes[OF assms(1)]
  show ?thesis
    unfolding g e scope_value using l d spec_alphabet by simp
qed

theorem auth_initiation_parameters_witness:
  "base64url_spec_decode toy64 (codeVerifier (fst (generateAuthUrl toy64 env0 world0)))
     = Some (replicate 32 CHR ''r'')
   \<and> base64url_spec_decode toy64 (state (fst (generateAuthUrl toy64 env0 world0)))
     = Some (replicate 16 CHR ''r'')
   \<and> rng (snd (generateAuthUrl toy64 env0 world0)) = 48"
proof -
  have a: "replicate 32 CHR ''r'' = map (entropy toy64) [rng world0 ..< rng world0 + 32]"
    unfolding toy64_entropy by simp
  have b: "replicate 16 CHR ''r'' = map (entropy toy64) [rng world0 + 32 ..< rng world0 + 48]"
    unfolding toy64_entropy by simp
  note t = auth_initiation_parameters[where P = toy64 and ev = env0 and w = world0,
      OF toy64_std refl a b]
  have r: "rng world0 + 48 = 48" by (simp add: world0_def)
  from t have "base64url_spec_decode toy64 (codeVerifier (fst (generateAuthUrl toy64 env0 world0)))
       = Some (replicate 32 CHR ''r'')"
    by (elim conjE)
  moreover from t have "base64url_spec_decode toy64 (state (fst (generateAuthUrl toy64 env0 world0)))
       = Some (replicate 16 CHR ''r'')"
    by (elim conjE)
  moreover from t have "rng (snd (generateAuthUrl toy64 env0 world0)) = 48"
    unfolding r by (elim conjE)
  ultimately show ?thesis by (intro conjI)
qed

end
